theory Spec2Isabelle
  imports Main "HOL-Library.Log_Nat" "HOL-Library.AList" "HOL-Library.Char_ord"
    "HOL-Library.List_Lexorder"
begin

section \<open>JavaScript primitives used by the vehicle handlers\<close>

text \<open>
  Strings are lists of 8-bit characters: the model covers the Latin-1 code units of a
  JavaScript string, which is where VINs, digits, trims and the separators live.
  \<open>isWhiteSpace\<close> is the class \<^verbatim>\<open>\s\<close> of a regular expression and of
  \<^verbatim>\<open>String.prototype.trim\<close> on that range: tab, line feed, vertical tab, form feed,
  carriage return, space and the no-break space. \<open>toUpperCase\<close> and \<open>toLowerCase\<close>
  convert the ASCII letters and leave every other character as it is.
\<close>

definition isWhiteSpace :: "char \<Rightarrow> bool" where
  "isWhiteSpace c \<longleftrightarrow>
     c \<in> set [CHR 0x09, CHR 0x0A, CHR 0x0B, CHR 0x0C, CHR 0x0D, CHR 0x20, CHR 0xA0]"

definition js_trim :: "string \<Rightarrow> string" where
  "js_trim s = rev (dropWhile isWhiteSpace (rev (dropWhile isWhiteSpace s)))"

definition lower_letters :: string where
  "lower_letters = ''abcdefghijklmnopqrstuvwxyz''"

definition upper_letters :: string where
  "upper_letters = ''ABCDEFGHIJKLMNOPQRSTUVWXYZ''"

definition upper_char :: "char \<Rightarrow> char" where
  "upper_char c = (case map_of (zip lower_letters upper_letters) c of Some u \<Rightarrow> u | None \<Rightarrow> c)"

definition lower_char :: "char \<Rightarrow> char" where
  "lower_char c = (case map_of (zip upper_letters lower_letters) c of Some l \<Rightarrow> l | None \<Rightarrow> c)"

definition toUpperCase :: "string \<Rightarrow> string" where
  "toUpperCase s = map upper_char s"

definition toLowerCase :: "string \<Rightarrow> string" where
  "toLowerCase s = map lower_char s"

text \<open>
  \<^verbatim>\<open>s.split(/\s+/)\<close>: the pieces between maximal runs of white space. A
  leading or trailing run leaves an empty piece, and the empty string splits into one empty
  piece. \<open>cur\<close> is the piece being read (reversed), \<open>inSep\<close> says that the last
  character was white space.
\<close>

fun split_ws_from :: "string \<Rightarrow> bool \<Rightarrow> string \<Rightarrow> string list" where
  "split_ws_from cur inSep [] = [rev cur]"
| "split_ws_from cur inSep (c # cs) =
     (if isWhiteSpace c
      then (if inSep then split_ws_from cur True cs else rev cur # split_ws_from [] True cs)
      else split_ws_from (c # cur) False cs)"

definition split_ws :: "string \<Rightarrow> string list" where
  "split_ws s = split_ws_from [] False s"

text \<open>\<^verbatim>\<open>s.split('/')\<close> for a one-character separator: never empty.\<close>

fun split_on :: "char \<Rightarrow> string \<Rightarrow> string list" where
  "split_on d [] = [[]]"
| "split_on d (c # cs) =
     (if c = d then [] # split_on d cs
      else (case split_on d cs of [] \<Rightarrow> [[c]] | t # ts \<Rightarrow> (c # t) # ts))"

text \<open>
  \<^verbatim>\<open>parseInt(s)\<close> without a radix: leading white space is skipped, a sign is read,
  a prefix \<^verbatim>\<open>0x\<close> or \<^verbatim>\<open>0X\<close> selects radix 16, and the longest run of digits is
  converted; with no digit the result is NaN, here \<open>None\<close>. The result is an exact
  integer (a JavaScript number is exact below \<open>2 ^ 53\<close>).
\<close>

definition digit_val :: "char \<Rightarrow> nat option" where
  "digit_val c = map_of (zip ''0123456789'' [0, 1, 2, 3, 4, 5, 6, 7, 8, 9]) c"

definition hex_val :: "char \<Rightarrow> nat option" where
  "hex_val c =
     map_of (zip ''0123456789abcdefABCDEF''
               [0, 1, 2, 3, 4, 5, 6, 7, 8, 9, 10, 11, 12, 13, 14, 15, 10, 11, 12, 13, 14, 15]) c"

fun digits_value :: "nat \<Rightarrow> (char \<Rightarrow> nat option) \<Rightarrow> nat \<Rightarrow> string \<Rightarrow> nat" where
  "digits_value radix dv acc [] = acc"
| "digits_value radix dv acc (c # cs) =
     (case dv c of None \<Rightarrow> acc | Some d \<Rightarrow> digits_value radix dv (acc * radix + d) cs)"

definition parse_unsigned :: "string \<Rightarrow> nat option" where
  "parse_unsigned s =
     (case s of
        a # b # r \<Rightarrow>
          (if a = CHR ''0'' \<and> (b = CHR ''x'' \<or> b = CHR ''X'')
           then (case r of [] \<Rightarrow> None
                 | h # _ \<Rightarrow> (if hex_val h = None then None else Some (digits_value 16 hex_val 0 r)))
           else (if digit_val a = None then None else Some (digits_value 10 digit_val 0 s)))
      | [a] \<Rightarrow> (if digit_val a = None then None else Some (digits_value 10 digit_val 0 s))
      | [] \<Rightarrow> None)"

definition parseInt :: "string \<Rightarrow> int option" where
  "parseInt s =
     (case dropWhile isWhiteSpace s of
        [] \<Rightarrow> None
      | c # r \<Rightarrow>
          (if c = CHR ''-'' then map_option (\<lambda>n. - int n) (parse_unsigned r)
           else if c = CHR ''+'' then map_option int (parse_unsigned r)
           else map_option int (parse_unsigned (c # r))))"

section \<open>Responses\<close>

text \<open>
  Modelled from the spec: the helpers of \<^verbatim>\<open>_shared/response.ts\<close>, which is not part of
  the sources at hand. The constructors are the helpers the handlers call; \<open>response_code\<close>
  is the code of the error envelope \<^verbatim>\<open>{error: {code, message}}\<close> that the specification
  gives for each of them, and \<open>None\<close> for the success envelope \<^verbatim>\<open>{data: ...}\<close>.
\<close>

datatype 'a response =
    successResponse 'a
  | errorResponse string string
  | notFoundResponse string
  | internalErrorResponse

fun response_code :: "'a response \<Rightarrow> string option" where
  "response_code (successResponse d) = None"
| "response_code (errorResponse c m) = Some c"
| "response_code (notFoundResponse m) = Some ''not_found''"
| "response_code internalErrorResponse = Some ''internal_error''"

section \<open>The VIN decoder\<close>

text \<open>One entry of the adapter's answer; the decoder reads its name and its value only.\<close>

record NHTSAResult =
  Variable :: string
  Value :: "string option"

text \<open>
  What \<^verbatim>\<open>fetch\<close> and \<^verbatim>\<open>response.json()\<close> can do: reject, or answer with the flag
  \<^verbatim>\<open>ok\<close>, a status and a body, which is the list \<^verbatim>\<open>Results\<close> when it parses.
\<close>

datatype fetch_outcome =
    FetchRejects
  | HttpResponse bool nat "NHTSAResult list option"

record Engine =
  cylinders :: "int option"
  displacement :: "string option"
  horsepower :: "int option"
  fuel_type :: "string option"

record DecodedVin =
  vin :: string
  year :: "int option"
  make' :: "string option"
  model :: "string option"
  trim :: "string option"
  body_type :: "string option"
  vehicle_type :: "string option"
  doors :: "int option"
  engine :: Engine
  drivetrain :: "string option"
  transmission :: "string option"
  manufacturer :: "string option"
  plant_country :: "string option"
  plant_city :: "string option"
  error_code :: "string option"
  error_text :: "string option"

text \<open>\<^verbatim>\<open>result?.Value || null\<close>: a missing variable, a null and an empty string all give null.\<close>

definition getValue :: "NHTSAResult list \<Rightarrow> string \<Rightarrow> string option" where
  "getValue results variableName =
     (case find (\<lambda>r. Variable r = variableName) results of
        None \<Rightarrow> None
      | Some r \<Rightarrow> (case Value r of None \<Rightarrow> None | Some v \<Rightarrow> if v = [] then None else Some v))"

definition getNumericValue :: "NHTSAResult list \<Rightarrow> string \<Rightarrow> int option" where
  "getNumericValue results variableName =
     (case getValue results variableName of None \<Rightarrow> None | Some val \<Rightarrow> parseInt val)"

definition nhtsa_url :: "string \<Rightarrow> string" where
  "nhtsa_url v = ''https://vpic.nhtsa.dot.gov/api/vehicles/decodevin/'' @ v @ ''?format=json''"

datatype exn = Thrown

text \<open>
  What a handler does to the outside world, in the order in which it does it: a call of the
  decode adapter, a read or a write of the cache, a query on a relation of the store.
\<close>

datatype event = Fetch string | CacheGet string | CacheSet string | DbQuery string

text \<open>
  \<open>decodeVinWithNHTSA\<close> returns the decoded descriptor or throws, together with the
  adapter calls it made.
\<close>

definition decodeVinWithNHTSA ::
  "(string \<Rightarrow> fetch_outcome) \<Rightarrow> string \<Rightarrow> (exn + DecodedVin) \<times> event list" where
  "decodeVinWithNHTSA fetch v =
     (case fetch (nhtsa_url v) of
        FetchRejects \<Rightarrow> (Inl Thrown, [Fetch (nhtsa_url v)])
      | HttpResponse ok status body \<Rightarrow>
          (if \<not> ok then (Inl Thrown, [Fetch (nhtsa_url v)])
           else (case body of
                   None \<Rightarrow> (Inl Thrown, [Fetch (nhtsa_url v)])
                 | Some results \<Rightarrow>
                     (Inr \<lparr> vin = v,
                            year = getNumericValue results ''Model Year'',
                            make' = getValue results ''Make'',
                            model = getValue results ''Model'',
                            trim = getValue results ''Trim'',
                            body_type = getValue results ''Body Class'',
                            vehicle_type = getValue results ''Vehicle Type'',
                            doors = getNumericValue results ''Doors'',
                            engine = \<lparr> cylinders = getNumericValue results ''Engine Number of Cylinders'',
                                       displacement = getValue results ''Displacement (L)'',
                                       horsepower = getNumericValue results ''Engine Brake (hp) From'',
                                       fuel_type = getValue results ''Fuel Type - Primary'' \<rparr>,
                            drivetrain = getValue results ''Drive Type'',
                            transmission = getValue results ''Transmission Style'',
                            manufacturer = getValue results ''Manufacturer Name'',
                            plant_country = getValue results ''Plant Country'',
                            plant_city = getValue results ''Plant City'',
                            error_code = getValue results ''Error Code'',
                            error_text = getValue results ''Error Text'' \<rparr>,
                      [Fetch (nhtsa_url v)]))))"

text \<open>The regular expression \<^verbatim>\<open>/^[A-HJ-NPR-Z0-9]{17}$/\<close>.\<close>

definition vin_char :: "char \<Rightarrow> bool" where
  "vin_char c \<longleftrightarrow> c \<in> set ''ABCDEFGHJKLMNPRSTUVWXYZ0123456789''"

definition vin_regex_test :: "string \<Rightarrow> bool" where
  "vin_regex_test s \<longleftrightarrow> length s = 17 \<and> list_all vin_char s"

text \<open>
  The payload of a decode response: the descriptor, or the descriptor spread into an object
  with the additional field \<^verbatim>\<open>warning\<close>.
\<close>

datatype decode_payload =
    Decoded DecodedVin
  | DecodedWithWarning DecodedVin "string option"

definition handleVinDecode ::
  "(string \<Rightarrow> fetch_outcome) \<Rightarrow> string \<Rightarrow> decode_payload response \<times> event list" where
  "handleVinDecode fetch v =
     (if v = [] \<or> length v \<noteq> 17
      then (errorResponse ''invalid_vin'' ''VIN must be exactly 17 characters'', [])
      else let vinUpper = toUpperCase v in
        if \<not> vin_regex_test vinUpper
        then (errorResponse ''invalid_vin'' ''VIN contains invalid characters'', [])
        else (case decodeVinWithNHTSA fetch vinUpper of
                (Inl e, calls) \<Rightarrow> (internalErrorResponse, calls)
              | (Inr decoded, calls) \<Rightarrow>
                  (case error_code decoded of
                     None \<Rightarrow> (successResponse (Decoded decoded), calls)
                   | Some ec \<Rightarrow>
                       (if ec \<noteq> [] \<and> ec \<noteq> ''0''
                        then (successResponse (DecodedWithWarning decoded (error_text decoded)), calls)
                        else (successResponse (Decoded decoded), calls)))))"

section \<open>Numbers\<close>

text \<open>
  A JavaScript number is an IEEE 754 double. \<open>fl\<close> rounds a rational to the nearest
  double, ties to even, with a significand of 53 bits; \<open>binade x\<close> is the exponent
  \<open>\<lfloor>log\<^sub>2 \<bar>x\<bar>\<rfloor>\<close>. Overflow and subnormal numbers are not modelled: the
  amounts of this service are many orders of magnitude away from both.
\<close>

definition binade :: "rat \<Rightarrow> int" where
  "binade x =
     (let y = \<bar>x\<bar> in if 1 \<le> y then bitlen \<lfloor>y\<rfloor> - 1 else - bitlen (\<lceil>1 / y\<rceil> - 1))"

definition round_ties_even :: "rat \<Rightarrow> int" where
  "round_ties_even y =
     (let f = \<lfloor>y\<rfloor>; r = y - of_int f
      in if r < 1 / 2 then f else if 1 / 2 < r then f + 1 else if even f then f else f + 1)"

definition fl :: "rat \<Rightarrow> rat" where
  "fl x = (if x = 0 then 0
           else let u = 2 powi (binade x - 52) in of_int (round_ties_even (x / u)) * u)"

text \<open>\<^verbatim>\<open>Math.round\<close>: the nearest integer, a tie going up.\<close>

definition Math_round :: "rat \<Rightarrow> int" where
  "Math_round x = \<lfloor>x + 1 / 2\<rfloor>"

text \<open>The literal \<^verbatim>\<open>-0.10\<close>: the double nearest to one tenth, negated.\<close>

definition neg_tenth :: rat where
  "neg_tenth = - (3602879701896397 / 36028797018963968)"

text \<open>
  \<^verbatim>\<open>Math.round(mileageDiff * -0.10 * 100)\<close>: two multiplications of doubles, from left
  to right, each one rounded.
\<close>

definition adjustment_cents :: "int \<Rightarrow> int" where
  "adjustment_cents mileageDiff = Math_round (fl (fl (of_int mileageDiff * neg_tenth) * 100))"

text \<open>
  A number that may be NaN, as \<^verbatim>\<open>parseInt\<close> returns it and as arithmetic propagates it;
  \<open>None\<close> of type \<open>number option\<close> is \<^verbatim>\<open>null\<close>.
\<close>

datatype number = Num int | NaN

fun js_add :: "number \<Rightarrow> number \<Rightarrow> number" where
  "js_add (Num a) (Num b) = Num (a + b)"
| "js_add _ _ = NaN"

text \<open>Truthiness of a nullable number: null, zero and NaN are falsy.\<close>

fun truthy :: "number option \<Rightarrow> bool" where
  "truthy (Some (Num n)) = (n \<noteq> 0)"
| "truthy _ = False"

text \<open>A number in a template literal: decimal digits, or \<^verbatim>\<open>NaN\<close>.\<close>

definition digit_char :: "nat \<Rightarrow> char" where
  "digit_char d = ''0123456789'' ! d"

fun show_nat :: "nat \<Rightarrow> string" where
  "show_nat n = (if n < 10 then [digit_char n] else show_nat (n div 10) @ [digit_char (n mod 10)])"

definition show_int :: "int \<Rightarrow> string" where
  "show_int i = (if i < 0 then CHR ''-'' # show_nat (nat (- i)) else show_nat (nat i))"

definition show_number :: "int option \<Rightarrow> string" where
  "show_number n = (case n of None \<Rightarrow> ''NaN'' | Some i \<Rightarrow> show_int i)"

section \<open>The relational store\<close>

text \<open>
  The store is the collaborator behind the Supabase client. A relation is either a list of
  rows or an error: every query on it then fails with that error, as when a materialized
  view has not been created (code \<^verbatim>\<open>42P01\<close> from PostgreSQL, \<^verbatim>\<open>PGRST205\<close> from
  PostgREST) or is unavailable for any other reason. The rows of a relation stand in the
  order in which the store returns them when a query asks for no ordering.
\<close>

datatype db_error = DbError (code: string)

type_synonym 'r relation = "db_error + 'r list"

record vehicle_spec =
  spec_id :: string
  spec_year :: int
  spec_make :: string
  spec_model :: string
  spec_trim :: "string option"
  spec_sample_vin :: "string option"

record warranty_row =
  vehicle_spec_id :: string
  coverage :: string

record value_set =
  condition :: string
  trade_in_cents :: "number option"
  private_party_cents :: "number option"
  dealer_retail_cents :: "number option"

record market_value_row = value_set +
  mv_year :: int
  mv_make :: string
  mv_model :: string
  mv_trim :: "string option"

record maintenance_row =
  ms_year :: int
  ms_make :: string
  ms_model :: string
  ms_trim :: "string option"
  mileage :: int
  service_items :: string

record make_row =
  vm_year :: int
  vm_make :: string

record autocomplete_row =
  ac_year :: int
  ac_make :: string
  ac_model :: string
  display_text :: string
  sample_vin :: "string option"

text \<open>
  \<open>collation_key\<close> is the sort key of the store's text collation: \<^verbatim>\<open>ORDER BY\<close> on a
  text column sorts by it.
\<close>

record database =
  vehicle_specs :: "vehicle_spec relation"
  vehicle_warranties :: "warranty_row relation"
  vehicle_market_values :: "market_value_row relation"
  vehicle_maintenance_schedules :: "maintenance_row relation"
  vehicle_makes :: "make_row relation"
  vehicle_autocomplete :: "autocomplete_row relation"
  collation_key :: "string \<Rightarrow> string"

subsection \<open>Pattern matching\<close>

text \<open>
  \<open>like p s\<close> is SQL's \<^verbatim>\<open>s LIKE p\<close>: \<^verbatim>\<open>%\<close> stands for any sequence of
  characters, \<^verbatim>\<open>_\<close> for any one character, and a backslash makes the next character
  of the pattern literal (PostgreSQL refuses a pattern that ends in a backslash; here such a
  pattern matches nothing).
  \<open>ilike\<close> is the filter \<^verbatim>\<open>.ilike(column, pattern)\<close>: the match ignores case, and
  PostgREST reads \<^verbatim>\<open>*\<close> in the pattern as \<^verbatim>\<open>%\<close>.
\<close>

fun like :: "string \<Rightarrow> string \<Rightarrow> bool" where
  "like [] s = (s = [])"
| "like (p # ps) s =
     (if p = CHR ''%''
      then like ps s \<or> (case s of [] \<Rightarrow> False | c # cs \<Rightarrow> like (p # ps) cs)
      else if p = CHR ''_''
      then (case s of [] \<Rightarrow> False | c # cs \<Rightarrow> like ps cs)
      else if p = CHR 0x5C
      then (case ps of [] \<Rightarrow> False
            | q # qs \<Rightarrow> (case s of [] \<Rightarrow> False | c # cs \<Rightarrow> c = q \<and> like qs cs))
      else (case s of [] \<Rightarrow> False | c # cs \<Rightarrow> c = p \<and> like ps cs))"

definition star_to_percent :: "char \<Rightarrow> char" where
  "star_to_percent c = (if c = CHR ''*'' then CHR ''%'' else c)"

definition ilike :: "string \<Rightarrow> string \<Rightarrow> bool" where
  "ilike pattern s = like (map star_to_percent (toLowerCase pattern)) (toLowerCase s)"

subsection \<open>The query builder\<close>

text \<open>
  Each call of the builder is a step on the pending result. The handlers call the filters
  and the ordering before \<^verbatim>\<open>limit\<close>, so that running the steps in the order of the calls
  gives what the one SQL statement gives: the selection, then the ordering, then the limit.
  A filter value or a limit that is not a number (NaN) or a negative limit is rejected by the
  store with \<open>invalid_input\<close>.
\<close>

definition invalid_input :: db_error where
  "invalid_input = DbError ''22P02''"

definition eq_col :: "('r \<Rightarrow> 'v) \<Rightarrow> 'v \<Rightarrow> 'r relation \<Rightarrow> 'r relation" where
  "eq_col col v q = (case q of Inl e \<Rightarrow> Inl e | Inr rows \<Rightarrow> Inr (filter (\<lambda>r. col r = v) rows))"

definition eq_number :: "('r \<Rightarrow> int) \<Rightarrow> int option \<Rightarrow> 'r relation \<Rightarrow> 'r relation" where
  "eq_number col v q =
     (case q of Inl e \<Rightarrow> Inl e
      | Inr rows \<Rightarrow>
          (case v of None \<Rightarrow> Inl invalid_input | Some n \<Rightarrow> Inr (filter (\<lambda>r. col r = n) rows)))"

definition gte_number :: "('r \<Rightarrow> int) \<Rightarrow> int option \<Rightarrow> 'r relation \<Rightarrow> 'r relation" where
  "gte_number col v q =
     (case q of Inl e \<Rightarrow> Inl e
      | Inr rows \<Rightarrow>
          (case v of None \<Rightarrow> Inl invalid_input | Some n \<Rightarrow> Inr (filter (\<lambda>r. n \<le> col r) rows)))"

definition ilike_col :: "('r \<Rightarrow> string) \<Rightarrow> string \<Rightarrow> 'r relation \<Rightarrow> 'r relation" where
  "ilike_col col pattern q =
     (case q of Inl e \<Rightarrow> Inl e | Inr rows \<Rightarrow> Inr (filter (\<lambda>r. ilike pattern (col r)) rows))"

text \<open>On a nullable column a null never matches.\<close>

definition ilike_nullable :: "('r \<Rightarrow> string option) \<Rightarrow> string \<Rightarrow> 'r relation \<Rightarrow> 'r relation" where
  "ilike_nullable col pattern q =
     (case q of Inl e \<Rightarrow> Inl e
      | Inr rows \<Rightarrow>
          Inr (filter (\<lambda>r. case col r of None \<Rightarrow> False | Some t \<Rightarrow> ilike pattern t) rows))"

definition or_filter :: "('r \<Rightarrow> bool) \<Rightarrow> 'r relation \<Rightarrow> 'r relation" where
  "or_filter P q = (case q of Inl e \<Rightarrow> Inl e | Inr rows \<Rightarrow> Inr (filter P rows))"

definition order_asc :: "('r \<Rightarrow> 'k::linorder) \<Rightarrow> 'r relation \<Rightarrow> 'r relation" where
  "order_asc col q = (case q of Inl e \<Rightarrow> Inl e | Inr rows \<Rightarrow> Inr (sort_key col rows))"

definition order_desc :: "('r \<Rightarrow> 'k::linorder) \<Rightarrow> 'r relation \<Rightarrow> 'r relation" where
  "order_desc col q = (case q of Inl e \<Rightarrow> Inl e | Inr rows \<Rightarrow> Inr (rev (sort_key col (rev rows))))"

definition limit_rows :: "int option \<Rightarrow> 'r relation \<Rightarrow> 'r relation" where
  "limit_rows n q =
     (case q of Inl e \<Rightarrow> Inl e
      | Inr rows \<Rightarrow>
          (case n of None \<Rightarrow> Inl invalid_input
           | Some k \<Rightarrow> if k < 0 then Inl invalid_input else Inr (take (nat k) rows)))"

text \<open>
  \<^verbatim>\<open>.single()\<close> gives the row when the result has exactly one row, and null (with an
  error) otherwise; \<open>data_or_empty\<close> is \<^verbatim>\<open>data || []\<close>.
\<close>

definition single :: "'r relation \<Rightarrow> 'r option" where
  "single q = (case q of Inl e \<Rightarrow> None | Inr rows \<Rightarrow> (case rows of [r] \<Rightarrow> Some r | _ \<Rightarrow> None))"

definition data_or_empty :: "'r relation \<Rightarrow> 'r list" where
  "data_or_empty q = (case q of Inl e \<Rightarrow> [] | Inr rows \<Rightarrow> rows)"

text \<open>A string in a condition: null and the empty string are falsy.\<close>

definition truthy_string :: "string option \<Rightarrow> string option" where
  "truthy_string s = (case s of None \<Rightarrow> None | Some t \<Rightarrow> if t = [] then None else Some t)"

section \<open>Handlers by vehicle id\<close>

text \<open>The regular expression for a UUID: groups of 8, 4, 4, 4 and 12 hexadecimal digits.\<close>

definition uuid_regex_test :: "string \<Rightarrow> bool" where
  "uuid_regex_test s =
     (case split_on CHR ''-'' s of
        [a, b, c, d, e] \<Rightarrow>
          length a = 8 \<and> length b = 4 \<and> length c = 4 \<and> length d = 4 \<and> length e = 12
          \<and> list_all (\<lambda>h. hex_val h \<noteq> None) (a @ b @ c @ d @ e)
      | _ \<Rightarrow> False)"

definition handleWarranty :: "database \<Rightarrow> string \<Rightarrow> warranty_row list response" where
  "handleWarranty db vehicleId =
     (if \<not> uuid_regex_test vehicleId
      then errorResponse ''invalid_params'' ''Vehicle ID must be a valid UUID''
      else (case eq_col vehicle_spec_id vehicleId (vehicle_warranties db) of
              Inl error \<Rightarrow> internalErrorResponse
            | Inr warranties \<Rightarrow>
                if warranties = []
                then notFoundResponse ''No warranty information found for this vehicle''
                else successResponse warranties))"

definition handleMaintenance ::
  "database \<Rightarrow> string \<Rightarrow> (string \<Rightarrow> string option) \<Rightarrow> maintenance_row list response" where
  "handleMaintenance db vehicleId searchParams =
     (let currentMileage = searchParams ''current_mileage'' in
      case single (eq_col spec_id vehicleId (vehicle_specs db)) of
        None \<Rightarrow> notFoundResponse ''Vehicle not found''
      | Some specs \<Rightarrow>
          let query = vehicle_maintenance_schedules db;
              query = eq_col ms_year (spec_year specs) query;
              query = ilike_col ms_make (spec_make specs) query;
              query = ilike_col ms_model (spec_model specs) query;
              query = order_asc mileage query;
              query = (case truthy_string (spec_trim specs) of
                         None \<Rightarrow> query
                       | Some t \<Rightarrow> ilike_nullable ms_trim (t @ ''%'') query);
              query = (case truthy_string currentMileage of
                         None \<Rightarrow> query
                       | Some m \<Rightarrow> gte_number mileage (parseInt m) query)
          in (case limit_rows (Some 50) query of
                Inl error \<Rightarrow> internalErrorResponse
              | Inr schedules \<Rightarrow> successResponse schedules))"

text \<open>
  \<open>formatMarketValues\<close> assigns one property per condition to an object; a later row of
  the same condition replaces the earlier one and keeps its place.
\<close>

definition formatMarketValues :: "market_value_row list \<Rightarrow> (string \<times> value_set) list" where
  "formatMarketValues values =
     foldl (\<lambda>result v.
              AList.update (condition v)
                \<lparr> condition = condition v,
                  trade_in_cents = trade_in_cents v,
                  private_party_cents = private_party_cents v,
                  dealer_retail_cents = dealer_retail_cents v \<rparr> result)
           [] values"

text \<open>\<^verbatim>\<open>if (x) x += adjustment\<close> on one field.\<close>

definition adjust_field :: "number \<Rightarrow> number option \<Rightarrow> number option" where
  "adjust_field adjustment x =
     (case x of None \<Rightarrow> None
      | Some v \<Rightarrow> if truthy x then Some (js_add v adjustment) else x)"

text \<open>
  The block under \<^verbatim>\<open>if (mileage && specs.year)\<close>; \<open>currentYear\<close> is
  \<^verbatim>\<open>new Date().getFullYear()\<close>.
\<close>

definition mileage_adjustment :: "int \<Rightarrow> int \<Rightarrow> string \<Rightarrow> number" where
  "mileage_adjustment currentYear specs_year mileage' =
     (case parseInt mileage' of
        None \<Rightarrow> NaN
      | Some mileageInt \<Rightarrow>
          let vehicleAge = currentYear - specs_year;
              expectedMileage = vehicleAge * 12000;
              mileageDiff = mileageInt - expectedMileage
          in Num (adjustment_cents mileageDiff))"

definition adjustForMileage ::
  "number \<Rightarrow> (string \<times> value_set) list \<Rightarrow> (string \<times> value_set) list" where
  "adjustForMileage adjustment result =
     map (\<lambda>(conditionKey, conditionData).
            (conditionKey,
             conditionData
               \<lparr> trade_in_cents := adjust_field adjustment (trade_in_cents conditionData),
                 private_party_cents := adjust_field adjustment (private_party_cents conditionData),
                 dealer_retail_cents := adjust_field adjustment (dealer_retail_cents conditionData) \<rparr>))
         result"

definition handleMarketValue ::
  "int \<Rightarrow> database \<Rightarrow> string \<Rightarrow> (string \<Rightarrow> string option) \<Rightarrow> (string \<times> value_set) list response" where
  "handleMarketValue currentYear db vehicleId searchParams =
     (let condition' = searchParams ''condition'';
          mileage' = searchParams ''mileage''
      in case single (eq_col spec_id vehicleId (vehicle_specs db)) of
           None \<Rightarrow> notFoundResponse ''Vehicle not found''
         | Some specs \<Rightarrow>
             let query = vehicle_market_values db;
                 query = eq_col mv_year (spec_year specs) query;
                 query = ilike_col mv_make (spec_make specs) query;
                 query = ilike_col mv_model (spec_model specs) query;
                 query = (case truthy_string (spec_trim specs) of
                            None \<Rightarrow> query
                          | Some t \<Rightarrow> ilike_nullable mv_trim t query);
                 query = (case truthy_string condition' of
                            None \<Rightarrow> query
                          | Some c \<Rightarrow> eq_col condition c query)
             in (case query of
                   Inl error \<Rightarrow> internalErrorResponse
                 | Inr values \<Rightarrow>
                     let result = formatMarketValues values in
                     (case truthy_string mileage' of
                        None \<Rightarrow> successResponse result
                      | Some m \<Rightarrow>
                          if spec_year specs \<noteq> 0
                          then successResponse
                                 (adjustForMileage (mileage_adjustment currentYear (spec_year specs) m) result)
                          else successResponse result)))"

section \<open>The full VIN lookup\<close>

text \<open>\<^verbatim>\<open>decoded.trim.split('/')[0].trim()\<close> and \<^verbatim>\<open>decoded.model.replace(/-/g, '%')\<close>.\<close>

definition primaryTrim_of :: "string \<Rightarrow> string" where
  "primaryTrim_of t = js_trim (case split_on CHR ''/'' t of [] \<Rightarrow> [] | p # _ \<Rightarrow> p)"

definition modelPattern_of :: "string \<Rightarrow> string" where
  "modelPattern_of m = map (\<lambda>c. if c = CHR ''-'' then CHR ''%'' else c) m"

text \<open>The two queries on \<^verbatim>\<open>vehicle_specs\<close>, each ended by \<^verbatim>\<open>.limit(1).single()\<close>.\<close>

definition specsWithTrim :: "database \<Rightarrow> string \<Rightarrow> string \<Rightarrow> int \<Rightarrow> string \<Rightarrow> vehicle_spec option" where
  "specsWithTrim db decoded_make modelPattern decoded_year primaryTrim =
     (let query = vehicle_specs db;
          query = ilike_col spec_make decoded_make query;
          query = ilike_col spec_model modelPattern query;
          query = eq_col spec_year decoded_year query;
          query = ilike_nullable spec_trim (primaryTrim @ ''%'') query
      in single (limit_rows (Some 1) query))"

definition specsWithoutTrim :: "database \<Rightarrow> string \<Rightarrow> string \<Rightarrow> int \<Rightarrow> vehicle_spec option" where
  "specsWithoutTrim db decoded_make modelPattern decoded_year =
     (let query = vehicle_specs db;
          query = ilike_col spec_make decoded_make query;
          query = ilike_col spec_model modelPattern query;
          query = eq_col spec_year decoded_year query
      in single (limit_rows (Some 1) query))"

text \<open>
  The resolution of the specification in \<open>handleVinLookup\<close>: with the trim when the
  decoded trim is truthy, and without it when that gave nothing.
\<close>

definition resolve_specs :: "database \<Rightarrow> string \<Rightarrow> string \<Rightarrow> int \<Rightarrow> string option \<Rightarrow> vehicle_spec option" where
  "resolve_specs db decoded_make modelPattern decoded_year decoded_trim =
     (let specs = (case truthy_string decoded_trim of
                     None \<Rightarrow> None
                   | Some t \<Rightarrow> specsWithTrim db decoded_make modelPattern decoded_year (primaryTrim_of t))
      in case specs of
           None \<Rightarrow> specsWithoutTrim db decoded_make modelPattern decoded_year
         | Some found \<Rightarrow> Some found)"

record vin_lookup =
  vin_info :: DecodedVin
  specs :: "vehicle_spec option"
  warranty :: "warranty_row list"
  market_values :: "(string \<times> value_set) list"
  maintenance :: "maintenance_row list"

definition handleVinLookup ::
  "(string \<Rightarrow> fetch_outcome) \<Rightarrow> database \<Rightarrow> string \<Rightarrow> vin_lookup response" where
  "handleVinLookup fetch db v =
     (if v = [] \<or> length v \<noteq> 17
      then errorResponse ''invalid_vin'' ''VIN must be exactly 17 characters''
      else let vinUpper = toUpperCase v in
        if \<not> vin_regex_test vinUpper
        then errorResponse ''invalid_vin'' ''VIN contains invalid characters''
        else (case fst (decodeVinWithNHTSA fetch vinUpper) of
                Inl e \<Rightarrow> internalErrorResponse
              | Inr decoded \<Rightarrow>
                  (case (year decoded, make' decoded, model decoded) of
                     (Some decoded_year, Some decoded_make, Some decoded_model) \<Rightarrow>
                       if decoded_year = 0 \<or> decoded_make = [] \<or> decoded_model = []
                       then errorResponse ''decode_failed''
                              ''Could not decode vehicle information from VIN''
                       else
                         let modelPattern = modelPattern_of decoded_model;
                             specs' = resolve_specs db decoded_make modelPattern decoded_year
                                       (trim decoded);
                             warranties =
                               (case specs' of
                                  None \<Rightarrow> []
                                | Some sp \<Rightarrow>
                                    data_or_empty
                                      (eq_col vehicle_spec_id (spec_id sp) (vehicle_warranties db)));
                             primaryTrim = map_option primaryTrim_of (truthy_string (trim decoded));
                             market = vehicle_market_values db;
                             market = ilike_col mv_make decoded_make market;
                             market = ilike_col mv_model modelPattern market;
                             market = eq_col mv_year decoded_year market;
                             marketValues =
                               (case truthy_string primaryTrim of
                                  None \<Rightarrow> []
                                | Some p \<Rightarrow> data_or_empty (ilike_nullable mv_trim (p @ ''%'') market));
                             marketValues =
                               (if marketValues = []
                                then data_or_empty (limit_rows (Some 20) market)
                                else marketValues);
                             schedule = vehicle_maintenance_schedules db;
                             schedule = ilike_col ms_make decoded_make schedule;
                             schedule = ilike_col ms_model modelPattern schedule;
                             schedule = eq_col ms_year decoded_year schedule;
                             maintenance' =
                               (case truthy_string primaryTrim of
                                  None \<Rightarrow> []
                                | Some p \<Rightarrow>
                                    data_or_empty
                                      (limit_rows (Some 50)
                                         (order_asc mileage
                                            (ilike_nullable ms_trim (p @ ''%'') schedule))));
                             maintenance' =
                               (if maintenance' = []
                                then data_or_empty (limit_rows (Some 50) (order_asc mileage schedule))
                                else maintenance')
                         in successResponse
                              \<lparr> vin_info = decoded,
                                specs = specs',
                                warranty = warranties,
                                market_values = formatMarketValues marketValues,
                                maintenance = maintenance' \<rparr>
                   | _ \<Rightarrow>
                       errorResponse ''decode_failed''
                         ''Could not decode vehicle information from VIN'')))"

section \<open>Cached lists and search\<close>

text \<open>
  What \<^verbatim>\<open>redis.get\<close> can do inside its \<^verbatim>\<open>try\<close>: throw, give nothing (or a falsy
  value), or give a value, which the handler returns.
\<close>

datatype 'a cache_outcome = CacheThrows | CacheMiss | CacheHit 'a

text \<open>\<^verbatim>\<open>[...new Set(xs)]\<close>: the elements in the order of their first occurrence.\<close>

definition js_set :: "'a list \<Rightarrow> 'a list" where
  "js_set xs = foldl (\<lambda>seen x. if x \<in> set seen then seen else seen @ [x]) [] xs"

definition handleMakes ::
  "(string \<Rightarrow> string list cache_outcome) \<Rightarrow> database \<Rightarrow> (string \<Rightarrow> string option)
     \<Rightarrow> string list response \<times> event list" where
  "handleMakes redis_get db searchParams =
     (let year' = truthy_string (searchParams ''year'');
          cacheKey = (case year' of Some y \<Rightarrow> ''vehicles:makes:'' @ y | None \<Rightarrow> ''vehicles:makes:all'')
      in case redis_get cacheKey of
           CacheHit cached \<Rightarrow> (successResponse cached, [CacheGet cacheKey])
         | _ \<Rightarrow>
             (case year' of
                Some y \<Rightarrow>
                  (case order_asc (collation_key db \<circ> vm_make)
                          (eq_number vm_year (parseInt y) (vehicle_makes db)) of
                     Inl error \<Rightarrow>
                       (case eq_number spec_year (parseInt y) (vehicle_specs db) of
                          Inl fallbackError \<Rightarrow>
                            (internalErrorResponse,
                             [CacheGet cacheKey, DbQuery ''vehicle_makes'', DbQuery ''vehicle_specs''])
                        | Inr fallbackData \<Rightarrow>
                            (successResponse (sort (js_set (map spec_make fallbackData))),
                             [CacheGet cacheKey, DbQuery ''vehicle_makes'', DbQuery ''vehicle_specs'',
                              CacheSet cacheKey]))
                   | Inr data \<Rightarrow>
                       (successResponse (map vm_make data),
                        [CacheGet cacheKey, DbQuery ''vehicle_makes'', CacheSet cacheKey]))
              | None \<Rightarrow>
                  (case order_asc (collation_key db \<circ> vm_make) (vehicle_makes db) of
                     Inl error \<Rightarrow>
                       (case vehicle_specs db of
                          Inl fallbackError \<Rightarrow>
                            (internalErrorResponse,
                             [CacheGet cacheKey, DbQuery ''vehicle_makes'', DbQuery ''vehicle_specs''])
                        | Inr fallbackData \<Rightarrow>
                            (successResponse (sort (js_set (map spec_make fallbackData))),
                             [CacheGet cacheKey, DbQuery ''vehicle_makes'', DbQuery ''vehicle_specs'',
                              CacheSet cacheKey]))
                   | Inr data \<Rightarrow>
                       (successResponse (sort (js_set (map vm_make data))),
                        [CacheGet cacheKey, DbQuery ''vehicle_makes'', CacheSet cacheKey]))))"

subsection \<open>The search tokenizer\<close>

text \<open>The test of the loop: \<^verbatim>\<open>token.length === 4 && !isNaN(numVal) && numVal >= 1990 && numVal <= 2030\<close>.\<close>

definition is_year_token :: "string \<Rightarrow> bool" where
  "is_year_token token \<longleftrightarrow>
     length token = 4
     \<and> (case parseInt token of None \<Rightarrow> False | Some numVal \<Rightarrow> 1990 \<le> numVal \<and> numVal \<le> 2030)"

fun tokenize_loop :: "int option \<times> string list \<Rightarrow> string list \<Rightarrow> int option \<times> string list" where
  "tokenize_loop (yearFilter, textTokens) [] = (yearFilter, textTokens)"
| "tokenize_loop (yearFilter, textTokens) (token # rest) =
     (if is_year_token token then tokenize_loop (parseInt token, textTokens) rest
      else if 2 \<le> length token then tokenize_loop (yearFilter, textTokens @ [token]) rest
      else tokenize_loop (yearFilter, textTokens) rest)"

text \<open>The normalisation and the tokenizer together, from the raw query.\<close>

definition tokenize :: "string \<Rightarrow> int option \<times> string list" where
  "tokenize query = tokenize_loop (None, []) (split_ws (toLowerCase (js_trim query)))"

text \<open>What the characterisation of a year token speaks of: decimal digits and their value.\<close>

definition is_digit :: "char \<Rightarrow> bool" where
  "is_digit c \<longleftrightarrow> c \<in> set ''0123456789''"

definition decimal_value :: "string \<Rightarrow> int" where
  "decimal_value s = int (digits_value 10 digit_val 0 s)"

subsection \<open>The search handler\<close>

text \<open>
  \<^verbatim>\<open>.order('year', desc).order('make', asc).order('model', asc)\<close>: the first key is the
  most significant, so the stable sorts run from the last key to the first.
\<close>

definition order_year_make_model ::
  "(string \<Rightarrow> string) \<Rightarrow> ('r \<Rightarrow> int) \<Rightarrow> ('r \<Rightarrow> string) \<Rightarrow> ('r \<Rightarrow> string) \<Rightarrow> 'r relation \<Rightarrow> 'r relation" where
  "order_year_make_model key y mk md q = order_desc y (order_asc (key \<circ> mk) (order_asc (key \<circ> md) q))"

text \<open>\<^verbatim>\<open>if (yearFilter) dbQuery = dbQuery.eq('year', yearFilter)\<close>: null and zero are falsy.\<close>

definition year_filter_step :: "('r \<Rightarrow> int) \<Rightarrow> int option \<Rightarrow> 'r relation \<Rightarrow> 'r relation" where
  "year_filter_step col yearFilter q =
     (case yearFilter of None \<Rightarrow> q | Some y \<Rightarrow> if y = 0 then q else eq_col col y q)"

definition autocomplete_query ::
  "database \<Rightarrow> int option \<Rightarrow> string list \<Rightarrow> int option \<Rightarrow> autocomplete_row relation" where
  "autocomplete_query db yearFilter textTokens limit =
     (let dbQuery = vehicle_autocomplete db;
          dbQuery = year_filter_step ac_year yearFilter dbQuery;
          dbQuery = foldl (\<lambda>q token. ilike_col display_text (''%'' @ token @ ''%'') q) dbQuery textTokens;
          dbQuery = order_year_make_model (collation_key db) ac_year ac_make ac_model dbQuery
      in limit_rows limit dbQuery)"

text \<open>
  The query of the fallback; a token is taken to be free of the characters that PostgREST
  reserves inside an \<^verbatim>\<open>or\<close> filter.
\<close>

definition specs_search_query ::
  "database \<Rightarrow> int option \<Rightarrow> string list \<Rightarrow> int option \<Rightarrow> vehicle_spec relation" where
  "specs_search_query db yearFilter textTokens limit =
     (let dbQuery = vehicle_specs db;
          dbQuery = year_filter_step spec_year yearFilter dbQuery;
          dbQuery = foldl (\<lambda>q token.
                             or_filter (\<lambda>r. ilike (''%'' @ token @ ''%'') (spec_make r)
                                             \<or> ilike (''%'' @ token @ ''%'') (spec_model r)) q)
                          dbQuery textTokens;
          dbQuery = order_year_make_model (collation_key db) spec_year spec_make spec_model dbQuery
      in limit_rows (map_option (\<lambda>n. n * 3) limit) dbQuery)"

text \<open>The loop that removes duplicates, with its \<^verbatim>\<open>break\<close> after a push.\<close>

fun dedupe_loop :: "int option \<Rightarrow> string list \<Rightarrow> autocomplete_row list \<Rightarrow> vehicle_spec list \<Rightarrow> autocomplete_row list" where
  "dedupe_loop limit seen dedupedResults [] = dedupedResults"
| "dedupe_loop limit seen dedupedResults (vehicle # rest) =
     (let key = show_int (spec_year vehicle) @ ''-'' @ spec_make vehicle @ ''-'' @ spec_model vehicle
      in if key \<notin> set seen
         then let pushed = dedupedResults @
                      [\<lparr> ac_year = spec_year vehicle,
                         ac_make = spec_make vehicle,
                         ac_model = spec_model vehicle,
                         display_text = show_int (spec_year vehicle) @ '' '' @ spec_make vehicle
                                          @ '' '' @ spec_model vehicle,
                         sample_vin = spec_sample_vin vehicle \<rparr>]
              in if (case limit of None \<Rightarrow> False | Some n \<Rightarrow> n \<le> int (length pushed)) then pushed
                 else dedupe_loop limit (key # seen) pushed rest
         else dedupe_loop limit seen dedupedResults rest)"

text \<open>The test \<^verbatim>\<open>error.code === '42P01' || error.code === 'PGRST205'\<close>.\<close>

definition view_missing :: "db_error \<Rightarrow> bool" where
  "view_missing error \<longleftrightarrow> code error = ''42P01'' \<or> code error = ''PGRST205''"

text \<open>\<^verbatim>\<open>url.searchParams.get('q') || url.searchParams.get('query') || ''\<close>.\<close>

definition search_query :: "(string \<Rightarrow> string option) \<Rightarrow> string" where
  "search_query searchParams =
     (case truthy_string (searchParams ''q'') of
        Some q \<Rightarrow> q
      | None \<Rightarrow> (case truthy_string (searchParams ''query'') of Some q \<Rightarrow> q | None \<Rightarrow> []))"

definition handleVehicleSearch ::
  "(string \<Rightarrow> autocomplete_row list cache_outcome) \<Rightarrow> database \<Rightarrow> (string \<Rightarrow> string option)
     \<Rightarrow> autocomplete_row list response \<times> event list" where
  "handleVehicleSearch redis_get db searchParams =
     (let query = search_query searchParams;
          limit = map_option (\<lambda>n. min n 50)
                    (parseInt (case truthy_string (searchParams ''limit'') of
                                 Some l \<Rightarrow> l | None \<Rightarrow> ''20''))
      in if query = [] \<or> length query < 2
         then (errorResponse ''invalid_params'' ''Search query must be at least 2 characters'', [])
         else
           let normalizedQuery = toLowerCase (js_trim query);
               cacheKey = ''vehicles:search:'' @ normalizedQuery @ '':'' @ show_number limit
           in case redis_get cacheKey of
                CacheHit cached \<Rightarrow> (successResponse cached, [CacheGet cacheKey])
              | _ \<Rightarrow>
                  (case tokenize_loop (None, []) (split_ws normalizedQuery) of
                     (yearFilter, textTokens) \<Rightarrow>
                       (case autocomplete_query db yearFilter textTokens limit of
                          Inr data \<Rightarrow>
                            (successResponse data,
                             [CacheGet cacheKey, DbQuery ''vehicle_autocomplete'', CacheSet cacheKey])
                        | Inl error \<Rightarrow>
                            if view_missing error
                            then (case specs_search_query db yearFilter textTokens limit of
                                    Inl error' \<Rightarrow>
                                      (internalErrorResponse,
                                       [CacheGet cacheKey, DbQuery ''vehicle_autocomplete'',
                                        DbQuery ''vehicle_specs''])
                                  | Inr data \<Rightarrow>
                                      (successResponse
                                         (dedupe_loop limit [] [] data),
                                       [CacheGet cacheKey, DbQuery ''vehicle_autocomplete'',
                                        DbQuery ''vehicle_specs'', CacheSet cacheKey]))
                            else (internalErrorResponse,
                                  [CacheGet cacheKey, DbQuery ''vehicle_autocomplete'']))))"

section \<open>Example worlds\<close>

text \<open>An adapter that answers every VIN with a decode carrying error code 1.\<close>

definition fetch_warn :: "string \<Rightarrow> fetch_outcome" where
  "fetch_warn u = HttpResponse True 200
     (Some [\<lparr>Variable = ''Error Code'', Value = Some ''1''\<rparr>,
            \<lparr>Variable = ''Error Text'',
             Value = Some ''1 - Check Digit (9th position) does not calculate properly''\<rparr>,
            \<lparr>Variable = ''Make'', Value = Some ''HONDA''\<rparr>])"

text \<open>
  A store with one specification, no warranty row, one market value row and four
  maintenance rows; the materialized views are present and empty.
\<close>

definition example_id :: string where
  "example_id = ''3f2504e0-4f89-41d3-9a0c-0305e82c3301''"

definition example_spec :: vehicle_spec where
  "example_spec = \<lparr> spec_id = example_id, spec_year = 2020, spec_make = ''Honda'',
      spec_model = ''Accord'', spec_trim = Some ''EX-L'', spec_sample_vin = None \<rparr>"

definition maint :: "string \<Rightarrow> int \<Rightarrow> maintenance_row" where
  "maint t m = \<lparr> ms_year = 2020, ms_make = ''Honda'', ms_model = ''Accord'', ms_trim = Some t,
      mileage = m, service_items = ''Inspect'' \<rparr>"

definition example_db :: database where
  "example_db = \<lparr> vehicle_specs = Inr [example_spec],
      vehicle_warranties = Inr [],
      vehicle_market_values =
        Inr [\<lparr> condition = ''Clean'', trade_in_cents = Some (Num 1500000),
               private_party_cents = Some (Num 0), dealer_retail_cents = None,
               mv_year = 2020, mv_make = ''Honda'', mv_model = ''Accord'', mv_trim = Some ''EX-L'' \<rparr>],
      vehicle_maintenance_schedules =
        Inr [maint ''EX-L Sedan'' 60000, maint ''EX-L Sedan'' 30000, maint ''LX'' 90000,
             maint ''EX-L Sedan'' 90000],
      vehicle_makes = Inr [],
      vehicle_autocomplete = Inr [],
      collation_key = (\<lambda>s. s) \<rparr>"

text \<open>
  A store with three trims of one model, and an adapter that decodes every VIN to that
  model with the trim \<^verbatim>\<open>EX-L/EX-L Navi\<close>.
\<close>

definition accord :: "string \<Rightarrow> string \<Rightarrow> vehicle_spec" where
  "accord i t = \<lparr> spec_id = i, spec_year = 2020, spec_make = ''Honda'', spec_model = ''Accord'',
      spec_trim = Some t, spec_sample_vin = None \<rparr>"

definition trim_db :: database where
  "trim_db = example_db \<lparr> vehicle_specs :=
      Inr [accord ''a1'' ''LX'', accord ''a2'' ''EX'', accord ''a3'' ''EX-L Navi''] \<rparr>"

definition fetch_accord :: "string \<Rightarrow> fetch_outcome" where
  "fetch_accord u = HttpResponse True 200
     (Some [\<lparr>Variable = ''Error Code'', Value = Some ''0''\<rparr>,
            \<lparr>Variable = ''Make'', Value = Some ''HONDA''\<rparr>,
            \<lparr>Variable = ''Model'', Value = Some ''Accord''\<rparr>,
            \<lparr>Variable = ''Model Year'', Value = Some ''2020''\<rparr>,
            \<lparr>Variable = ''Trim'', Value = Some ''EX-L/EX-L Navi''\<rparr>])"

text \<open>
  A cache that never holds anything, and a store whose materialized views fail with the
  code 57014 of a cancelled statement, which is not a code of a missing relation.
\<close>

definition cache_miss :: "string \<Rightarrow> 'a cache_outcome" where
  "cache_miss k = CacheMiss"

definition db_view_timeout :: database where
  "db_view_timeout = example_db \<lparr> vehicle_makes := Inl (DbError ''57014''),
      vehicle_autocomplete := Inl (DbError ''57014'') \<rparr>"

section \<open>The formulas of the specification\<close>

text \<open>
  The mileage adjustment as the specification words it:
  \<^verbatim>\<open>adjustment_cents = round((actual_mileage - expected_mileage) * -0.10)\<close>.
\<close>

definition spec_adjustment_cents :: "int \<Rightarrow> int \<Rightarrow> int" where
  "spec_adjustment_cents actual_mileage expected_mileage =
     round (rat_of_int (actual_mileage - expected_mileage) * (- (1 / 10)))"

text \<open>The three value fields that the adjustment visits.\<close>

definition value_fields :: "(value_set \<Rightarrow> number option) list" where
  "value_fields = [trade_in_cents, private_party_cents, dealer_retail_cents]"

text \<open>
  A pattern without the characters that \<open>ilike\<close> reads as wildcards or as an escape, and
  the primary trim as the specification words it: the first slash-separated segment.
\<close>

definition wildcard_free :: "string \<Rightarrow> bool" where
  "wildcard_free p = list_all (\<lambda>c. c \<notin> set [CHR ''%'', CHR ''_'', CHR ''*'', CHR 0x5C]) p"

definition first_segment :: "string \<Rightarrow> string" where
  "first_segment t = takeWhile (\<lambda>c. c \<noteq> CHR ''/'') t"

section \<open>Properties of the VIN decoder\<close>

lemma getValue_nonempty: "getValue rs n = Some v \<Longrightarrow> v \<noteq> []"
  by (auto simp: getValue_def split: option.splits if_splits)

lemma decode_valid_vin_calls_adapter:
  assumes "length v = 17" and "vin_regex_test (toUpperCase v)"
  shows "snd (handleVinDecode fetch v) = [Fetch (nhtsa_url (toUpperCase v))]"
  using assms
  by (auto simp: handleVinDecode_def Let_def decodeVinWithNHTSA_def
      split: fetch_outcome.splits option.splits prod.splits sum.splits)

text \<open>
  C4. A VIN that does not match \<^verbatim>\<open>[A-HJ-NPR-Z0-9]{17}\<close> after upper-casing (in
  particular any VIN whose length is not 17) is answered with the error \<open>invalid_vin\<close>,
  and the decode adapter is not called: the handler makes no call at all. (A VIN that does
  match reaches the adapter, by \<open>decode_valid_vin_calls_adapter\<close>.)
\<close>

theorem decode_invalid_vin_no_network:
  assumes "\<not> vin_regex_test (toUpperCase v)"
  shows "response_code (fst (handleVinDecode fetch v)) = Some ''invalid_vin''
         \<and> snd (handleVinDecode fetch v) = []"
proof (cases "v = [] \<or> length v \<noteq> 17")
  case True
  then show ?thesis by (simp add: handleVinDecode_def)
next
  case False
  with assms show ?thesis by (simp add: handleVinDecode_def Let_def)
qed

theorem decode_invalid_vin_no_network_witness:
  "\<not> vin_regex_test (toUpperCase ''1hgcm82633a00435o'')
   \<and> response_code (fst (handleVinDecode (\<lambda>u. FetchRejects) ''1hgcm82633a00435o'')) = Some ''invalid_vin''
   \<and> snd (handleVinDecode (\<lambda>u. FetchRejects) ''1hgcm82633a00435o'') = []"
proof -
  have h: "\<not> vin_regex_test (toUpperCase ''1hgcm82633a00435o'')"
    by (simp add: vin_regex_test_def toUpperCase_def upper_char_def lower_letters_def
        upper_letters_def vin_char_def)
  show ?thesis using h decode_invalid_vin_no_network [OF h] by simp
qed

text \<open>
  C5. When the adapter answers successfully and the decoded error code is non-null and is
  not \<^verbatim>\<open>"0"\<close>, the handler still answers with the success envelope: the payload is the
  decoded descriptor with the additional field \<open>warning\<close>, which carries the adapter's
  error text, and the response has no error code.
\<close>

theorem decode_warning_not_failure:
  assumes "length v = 17" and "vin_regex_test (toUpperCase v)"
    and "fetch (nhtsa_url (toUpperCase v)) = HttpResponse True status (Some results)"
    and "getValue results ''Error Code'' = Some ec" and "ec \<noteq> ''0''"
  shows "\<exists>d. fst (decodeVinWithNHTSA fetch (toUpperCase v)) = Inr d
          \<and> fst (handleVinDecode fetch v)
              = successResponse (DecodedWithWarning d (getValue results ''Error Text''))
          \<and> response_code (fst (handleVinDecode fetch v)) = None"
proof -
  from assms(4) have ne: "ec \<noteq> []" by (rule getValue_nonempty)
  from assms(1) have "v \<noteq> []" by auto
  with assms ne show ?thesis
    by (simp add: handleVinDecode_def Let_def decodeVinWithNHTSA_def)
qed

lemma valid_example: "vin_regex_test (toUpperCase ''1hgcm82633a004352'')"
  by (simp add: vin_regex_test_def toUpperCase_def upper_char_def lower_letters_def
        upper_letters_def vin_char_def)

theorem decode_warning_not_failure_witness:
  "\<exists>d. fst (decodeVinWithNHTSA fetch_warn (toUpperCase ''1hgcm82633a004352'')) = Inr d
      \<and> fst (handleVinDecode fetch_warn ''1hgcm82633a004352'')
          = successResponse (DecodedWithWarning d
              (Some ''1 - Check Digit (9th position) does not calculate properly''))
      \<and> response_code (fst (handleVinDecode fetch_warn ''1hgcm82633a004352'')) = None"
proof -
  let ?rs = "[\<lparr>Variable = ''Error Code'', Value = Some ''1''\<rparr>,
            \<lparr>Variable = ''Error Text'', Value = Some ''1 - Check Digit (9th position) does not calculate properly''\<rparr>,
            \<lparr>Variable = ''Make'', Value = Some ''HONDA''\<rparr>]"
  have f: "fetch_warn (nhtsa_url (toUpperCase ''1hgcm82633a004352'')) = HttpResponse True 200 (Some ?rs)"
    by (simp add: fetch_warn_def)
  have ec: "getValue ?rs ''Error Code'' = Some ''1''" by (simp add: getValue_def)
  have et: "getValue ?rs ''Error Text'' = Some ''1 - Check Digit (9th position) does not calculate properly''"
    by (simp add: getValue_def)
  have l: "length ''1hgcm82633a004352'' = 17" by simp
  have ne: "''1'' \<noteq> ''0''" by simp
  show ?thesis
    using decode_warning_not_failure [where fetch = fetch_warn, OF l valid_example f ec ne]
    unfolding et .
qed

section \<open>Properties of the tokenizer\<close>

lemma digit_val_less: "digit_val c = Some d \<Longrightarrow> d < 10"
  by (simp add: digit_val_def split: if_splits)

lemma hex_val_less: "hex_val c = Some d \<Longrightarrow> d < 16"
  by (simp add: hex_val_def split: if_splits)

lemma digit_val_is_digit: "digit_val c \<noteq> None \<longleftrightarrow> is_digit c"
  by (simp add: digit_val_def is_digit_def)

lemma digits_value_bound:
  assumes "\<And>c d. dv c = Some d \<Longrightarrow> d < r" and "0 < r"
  shows "digits_value r dv acc s < (acc + 1) * r ^ length s"
proof (induction s arbitrary: acc)
  case Nil
  then show ?case by simp
next
  case (Cons c s)
  show ?case
  proof (cases "dv c")
    case None
    have "acc < acc + 1" by simp
    also have "acc + 1 \<le> (acc + 1) * r ^ length (c # s)"
    proof -
      have "1 \<le> r ^ length (c # s)" using assms(2) by (simp add: Suc_leI)
      then have "(acc + 1) * 1 \<le> (acc + 1) * r ^ length (c # s)" by (rule mult_le_mono2)
      then show ?thesis by simp
    qed
    finally show ?thesis using None by simp
  next
    case (Some d)
    then have d: "d + 1 \<le> r" using assms(1) by fastforce
    have le: "acc * r + d + 1 \<le> (acc + 1) * r" using d by (simp add: algebra_simps)
    have "digits_value r dv (acc * r + d) s < (acc * r + d + 1) * r ^ length s"
      using Cons.IH by simp
    also have "\<dots> \<le> ((acc + 1) * r) * r ^ length s"
      using le by (rule mult_le_mono1)
    also have "\<dots> = (acc + 1) * r ^ length (c # s)"
      by (simp add: algebra_simps)
    finally have "digits_value r dv (acc * r + d) s < (acc + 1) * r ^ length (c # s)" .
    then show ?thesis using Some by simp
  qed
qed

lemma digits_value_takeWhile:
  "digits_value r dv acc s = digits_value r dv acc (takeWhile (\<lambda>c. dv c \<noteq> None) s)"
  by (induction s arbitrary: acc) (auto split: option.splits)

lemma decimal_large_all_digits:
  assumes "length s \<le> 4" and "1000 \<le> digits_value 10 digit_val 0 s"
  shows "length s = 4 \<and> list_all is_digit s"
proof -
  let ?p = "takeWhile (\<lambda>c. digit_val c \<noteq> None) s"
  have "digits_value 10 digit_val 0 ?p < (0 + 1) * 10 ^ length ?p"
    by (rule digits_value_bound) (auto dest: digit_val_less)
  with assms(2) have big: "(1000::nat) < 10 ^ length ?p"
    using digits_value_takeWhile[of 10 digit_val 0 s] by simp
  have "\<not> length ?p \<le> 3"
  proof
    assume "length ?p \<le> 3"
    then have "(10::nat) ^ length ?p \<le> 10 ^ 3" by (intro power_increasing) auto
    with big show False by simp
  qed
  moreover have "length ?p \<le> length s" by (rule length_takeWhile_le)
  ultimately have len: "length ?p = length s" "length s = 4" using assms(1) by auto
  then have "?p = s" by (metis takeWhile_eq_take length_takeWhile_le take_all order_refl)
  then have "\<forall>c \<in> set s. digit_val c \<noteq> None" by (metis set_takeWhileD)
  then have "\<forall>c \<in> set s. is_digit c" unfolding digit_val_is_digit .
  then show ?thesis using len by (simp add: list_all_iff)
qed

lemma hex_small:
  assumes "length s \<le> 2"
  shows "digits_value 16 hex_val 0 s < 256"
proof -
  have "digits_value 16 hex_val 0 s < (0 + 1) * 16 ^ length s"
    by (rule digits_value_bound) (auto dest: hex_val_less)
  also have "(16::nat) ^ length s \<le> 16 ^ 2" using assms by (intro power_increasing) auto
  finally show ?thesis by simp
qed

lemma parse_unsigned_large:
  assumes "length s \<le> 4" and "parse_unsigned s = Some n" and "1000 \<le> n"
  shows "length s = 4 \<and> list_all is_digit s \<and> n = digits_value 10 digit_val 0 s"
proof (cases s)
  case Nil
  with assms show ?thesis by (simp add: parse_unsigned_def)
next
  case (Cons a r)
  show ?thesis
  proof (cases "\<exists>b t. r = b # t \<and> a = CHR ''0'' \<and> (b = CHR ''x'' \<or> b = CHR ''X'')")
    case True
    then obtain b t where r: "r = b # t" "a = CHR ''0''" "b = CHR ''x'' \<or> b = CHR ''X''" by blast
    with assms(1) Cons have "length t \<le> 2" by simp
    then have "digits_value 16 hex_val 0 t < 256" by (rule hex_small)
    with assms(2,3) Cons r show ?thesis
      by (auto simp: parse_unsigned_def split: list.splits if_splits)
  next
    case False
    with assms(2) Cons have n: "n = digits_value 10 digit_val 0 s"
      by (auto simp: parse_unsigned_def split: list.splits if_splits)
    with assms(1,3) decimal_large_all_digits[of s] show ?thesis by simp
  qed
qed

lemma dropWhile_length_eq: "length (dropWhile P s) = length s \<Longrightarrow> dropWhile P s = s"
proof (cases s)
  case Nil
  then show ?thesis by simp
next
  case (Cons a r)
  assume len: "length (dropWhile P s) = length s"
  show ?thesis
  proof (cases "P a")
    case True
    with Cons len have "length (dropWhile P r) = Suc (length r)" by simp
    with length_dropWhile_le[of P r] show ?thesis by simp
  next
    case False
    with Cons show ?thesis by simp
  qed
qed

lemma is_digit_val: "is_digit c \<Longrightarrow> \<exists>d. digit_val c = Some d"
  using digit_val_is_digit[of c] by auto

lemma is_digit_not_special:
  assumes "is_digit c"
  shows "\<not> isWhiteSpace c" "c \<noteq> CHR ''-''" "c \<noteq> CHR ''+''" "c \<noteq> CHR ''x''" "c \<noteq> CHR ''X''"
  using assms by (auto simp: is_digit_def isWhiteSpace_def)

lemma parseInt_digits4:
  assumes "length t = 4" and "list_all is_digit t"
  shows "parseInt t = Some (decimal_value t)"
proof -
  from assms obtain a b r where t: "t = a # b # r" "is_digit a" "is_digit b"
    by (cases t; cases "tl t") auto
  then have "dropWhile isWhiteSpace t = t" by (simp add: is_digit_not_special)
  moreover have "parse_unsigned t = Some (digits_value 10 digit_val 0 t)"
    using t is_digit_val[of a] by (auto simp: parse_unsigned_def is_digit_not_special)
  ultimately show ?thesis using t
    by (simp add: parseInt_def decimal_value_def is_digit_not_special)
qed

lemma parseInt_large:
  assumes "length t = 4" and "parseInt t = Some n" and "1000 \<le> n"
  shows "list_all is_digit t \<and> n = decimal_value t"
proof -
  obtain c r where d: "dropWhile isWhiteSpace t = c # r"
    using assms(2) by (cases "dropWhile isWhiteSpace t") (auto simp: parseInt_def)
  have len: "length (c # r) \<le> 4"
    using length_dropWhile_le[of isWhiteSpace t] assms(1) d by simp
  have neg: "c \<noteq> CHR ''-''"
    using assms(2,3) d by (auto simp: parseInt_def)
  have plus: "c \<noteq> CHR ''+''"
  proof
    assume c: "c = CHR ''+''"
    with assms(2) d obtain m where m: "parse_unsigned r = Some m" "n = int m"
      by (auto simp: parseInt_def)
    with assms(3) len parse_unsigned_large[of r m] show False by simp
  qed
  from assms(2) d neg plus obtain m where m: "parse_unsigned (c # r) = Some m" "n = int m"
    by (auto simp: parseInt_def)
  with assms(3) len parse_unsigned_large[of "c # r" m]
  have *: "length (c # r) = 4" "list_all is_digit (c # r)" "m = digits_value 10 digit_val 0 (c # r)"
    by simp_all
  with d assms(1) have "dropWhile isWhiteSpace t = t"
    by (intro dropWhile_length_eq) simp
  with d * m show ?thesis by (simp add: decimal_value_def)
qed

lemma is_year_token_iff:
  "is_year_token t \<longleftrightarrow>
     length t = 4 \<and> list_all is_digit t \<and> 1990 \<le> decimal_value t \<and> decimal_value t \<le> 2030"
proof
  assume "is_year_token t"
  then obtain n where n: "length t = 4" "parseInt t = Some n" "1990 \<le> n" "n \<le> 2030"
    by (auto simp: is_year_token_def split: option.splits)
  with parseInt_large[of t n] show "length t = 4 \<and> list_all is_digit t \<and> 1990 \<le> decimal_value t \<and> decimal_value t \<le> 2030"
    by simp
next
  assume "length t = 4 \<and> list_all is_digit t \<and> 1990 \<le> decimal_value t \<and> decimal_value t \<le> 2030"
  then show "is_year_token t"
    by (simp add: is_year_token_def parseInt_digits4)
qed

lemma tokenize_loop_text:
  "snd (tokenize_loop (yf, tt) tokens)
     = tt @ filter (\<lambda>t. \<not> is_year_token t \<and> 2 \<le> length t) tokens"
  by (induction tokens arbitrary: yf tt) auto

lemma tokenize_loop_year:
  "fst (tokenize_loop (yf, tt) tokens)
     = (case filter is_year_token tokens of [] \<Rightarrow> yf | y # ys \<Rightarrow> parseInt (last (y # ys)))"
  by (induction tokens arbitrary: yf tt) (auto split: list.splits)

text \<open>
  C7. A token is the year filter exactly when it has 4 characters, all of them decimal
  digits, and its value lies in [1990, 2030]; the text tokens are, in order, the other tokens
  of length at least 2, and shorter tokens are dropped. When several tokens are years the
  filter is the last of them. The query \<^verbatim>\<open>"2024 accord"\<close> gives the year filter 2024
  and the text token \<^verbatim>\<open>"accord"\<close>; the query \<^verbatim>\<open>"honda"\<close> gives no year filter and one
  text token.
\<close>

theorem tokenizer_year_and_text:
  "(is_year_token t \<longleftrightarrow>
      length t = 4 \<and> list_all is_digit t \<and> 1990 \<le> decimal_value t \<and> decimal_value t \<le> 2030)
   \<and> snd (tokenize_loop (None, []) tokens) = filter (\<lambda>t. \<not> is_year_token t \<and> 2 \<le> length t) tokens
   \<and> fst (tokenize_loop (None, []) tokens)
        = (case filter is_year_token tokens of [] \<Rightarrow> None | y # ys \<Rightarrow> Some (decimal_value (last (y # ys))))
   \<and> tokenize ''2024 accord'' = (Some 2024, [''accord''])
   \<and> tokenize ''honda'' = (None, [''honda''])"
proof -
  have y: "fst (tokenize_loop (None, []) tokens)
        = (case filter is_year_token tokens of [] \<Rightarrow> None | y # ys \<Rightarrow> Some (decimal_value (last (y # ys))))"
  proof (cases "filter is_year_token tokens")
    case Nil
    then show ?thesis by (simp add: tokenize_loop_year)
  next
    case (Cons y ys)
    then have "last (y # ys) \<in> set (filter is_year_token tokens)"
      by (metis last_in_set list.distinct(1))
    then have "is_year_token (last (y # ys))" by simp
    then have "parseInt (last (y # ys)) = Some (decimal_value (last (y # ys)))"
      by (simp add: is_year_token_iff parseInt_digits4)
    with Cons show ?thesis by (simp add: tokenize_loop_year)
  qed
  have e1: "tokenize ''2024 accord'' = (Some 2024, [''accord''])"
    by (simp add: tokenize_def split_ws_def js_trim_def toLowerCase_def lower_char_def
        upper_letters_def lower_letters_def isWhiteSpace_def is_year_token_def parseInt_def
        parse_unsigned_def digit_val_def)
  have e2: "tokenize ''honda'' = (None, [''honda''])"
    by (simp add: tokenize_def split_ws_def js_trim_def toLowerCase_def lower_char_def
        upper_letters_def lower_letters_def isWhiteSpace_def is_year_token_def parseInt_def
        parse_unsigned_def digit_val_def)
  show ?thesis
    using is_year_token_iff[of t] tokenize_loop_text[of None "[]" tokens] y e1 e2 by simp
qed

theorem tokenizer_year_and_text_witness:
  "tokenize_loop (None, []) [''2019'', ''x'', ''2024'', ''cr-v'', ''1989''] = (Some 2024, [''cr-v'', ''1989''])"
proof -
  have d: "is_digit c = (c \<in> set ''0123456789'')" for c by (simp add: is_digit_def)
  have y1: "is_year_token ''2019''" "is_year_token ''2024''"
    using tokenizer_year_and_text[of "''2019''" "[]"] tokenizer_year_and_text[of "''2024''" "[]"]
    by (simp_all add: d decimal_value_def digit_val_def)
  have n1: "\<not> is_year_token ''x''" "\<not> is_year_token ''cr-v''" "\<not> is_year_token ''1989''"
    using tokenizer_year_and_text[of "''x''" "[]"] tokenizer_year_and_text[of "''cr-v''" "[]"]
      tokenizer_year_and_text[of "''1989''" "[]"]
    by (simp_all add: d decimal_value_def digit_val_def)
  have "snd (tokenize_loop (None, []) [''2019'', ''x'', ''2024'', ''cr-v'', ''1989'']) = [''cr-v'', ''1989'']"
    using tokenizer_year_and_text[of "[]" "[''2019'', ''x'', ''2024'', ''cr-v'', ''1989'']"] y1 n1
    by simp
  moreover have "fst (tokenize_loop (None, []) [''2019'', ''x'', ''2024'', ''cr-v'', ''1989'']) = Some 2024"
    using tokenizer_year_and_text[of "[]" "[''2019'', ''x'', ''2024'', ''cr-v'', ''1989'']"] y1 n1
    by (simp add: decimal_value_def digit_val_def)
  ultimately show ?thesis by (metis prod.collapse)
qed

section \<open>Properties of the arithmetic\<close>

text \<open>
  The rounding error of one operation is at most the exact result divided by \<open>2 ^ 53\<close>,
  and the double \<^verbatim>\<open>-0.10\<close> is within \<open>1 / (5 * 2 ^ 55)\<close> of minus one tenth. Up to
  \<open>2 ^ 40\<close> miles of difference the two rounded multiplications stay within one half of
  \<open>- 10 * d\<close>, so that \<^verbatim>\<open>Math.round\<close> returns exactly ten cents per mile.
  \<open>binade_lower\<close> and \<open>binade_upper\<close> say that \<open>binade\<close> is the exponent of its
  argument.
\<close>

lemma rte_err: "\<bar>of_int (round_ties_even y) - y\<bar> \<le> 1 / 2"
  unfolding round_ties_even_def Let_def by (auto simp: abs_if) linarith+

lemma binade_lower:
  assumes "x \<noteq> 0"
  shows "2 powi (binade x) \<le> \<bar>x\<bar>"
proof (cases "1 \<le> \<bar>x\<bar>")
  case True
  let ?n = "\<lfloor>\<bar>x\<bar>\<rfloor>"
  have n: "0 < ?n" using True by simp
  from bitlen_bounds[OF n] have b: "2 ^ nat (bitlen ?n - 1) \<le> ?n" ..
  have pos: "0 \<le> bitlen ?n - 1" using n by (simp add: bitlen_alt_def)
  have "(2::rat) powi (bitlen ?n - 1) = 2 ^ nat (bitlen ?n - 1)"
    using pos by (simp add: power_int_def)
  also have "\<dots> = of_int (2 ^ nat (bitlen ?n - 1))" by simp
  also have "\<dots> \<le> of_int ?n" using b by (simp only: of_int_le_iff)
  also have "\<dots> \<le> \<bar>x\<bar>" by simp
  finally show ?thesis using True by (simp add: binade_def Let_def)
next
  case False
  let ?y = "\<bar>x\<bar>"
  let ?m = "\<lceil>1 / ?y\<rceil> - 1"
  have y: "0 < ?y" "?y < 1" using assms False by auto
  then have "1 < 1 / ?y" by simp
  then have m: "0 < ?m" by linarith
  from bitlen_bounds[OF m] have b: "?m < 2 ^ nat (bitlen ?m)" ..
  then have "\<lceil>1 / ?y\<rceil> \<le> 2 ^ nat (bitlen ?m)" by simp
  then have "(of_int \<lceil>1 / ?y\<rceil> :: rat) \<le> of_int (2 ^ nat (bitlen ?m))"
    by (simp only: of_int_le_iff)
  with le_of_int_ceiling[of "1 / ?y"]
  have "1 / ?y \<le> of_int (2 ^ nat (bitlen ?m))" by (rule order_trans)
  then have "1 / ?y \<le> 2 ^ nat (bitlen ?m)" by simp
  then have "1 \<le> 2 ^ nat (bitlen ?m) * ?y" using y(1) by (simp add: field_simps)
  then have "1 / 2 ^ nat (bitlen ?m) \<le> ?y" by (simp add: field_simps)
  moreover have "(2::rat) powi (- bitlen ?m) = 1 / 2 ^ nat (bitlen ?m)"
    using bitlen_nonneg[of ?m] by (simp add: power_int_def field_simps)
  ultimately show ?thesis using False by (simp add: binade_def Let_def)
qed

lemma binade_upper:
  assumes "x \<noteq> 0"
  shows "\<bar>x\<bar> < 2 powi (binade x + 1)"
proof (cases "1 \<le> \<bar>x\<bar>")
  case True
  let ?n = "\<lfloor>\<bar>x\<bar>\<rfloor>"
  have n: "0 < ?n" using True by simp
  from bitlen_bounds[OF n] have b: "?n < 2 ^ nat (bitlen ?n)" ..
  then have "?n + 1 \<le> 2 ^ nat (bitlen ?n)" by simp
  then have "(of_int (?n + 1) :: rat) \<le> of_int (2 ^ nat (bitlen ?n))"
    by (simp only: of_int_le_iff)
  moreover have "\<bar>x\<bar> < of_int (?n + 1)" by linarith
  ultimately have "\<bar>x\<bar> < of_int (2 ^ nat (bitlen ?n))" by (rule less_le_trans[rotated])
  moreover have "(2::rat) powi (bitlen ?n) = 2 ^ nat (bitlen ?n)"
    using bitlen_nonneg[of ?n] by (simp add: power_int_def)
  ultimately show ?thesis using True by (simp add: binade_def Let_def)
next
  case False
  let ?y = "\<bar>x\<bar>"
  let ?m = "\<lceil>1 / ?y\<rceil> - 1"
  have y: "0 < ?y" "?y < 1" using assms False by auto
  then have "1 < 1 / ?y" by simp
  then have m: "0 < ?m" by linarith
  from bitlen_bounds[OF m] have b: "2 ^ nat (bitlen ?m - 1) \<le> ?m" ..
  have k: "0 \<le> bitlen ?m - 1" using m by (simp add: bitlen_alt_def)
  from b have "(of_int (2 ^ nat (bitlen ?m - 1)) :: rat) \<le> of_int ?m"
    by (simp only: of_int_le_iff)
  moreover have "of_int ?m < 1 / ?y" by linarith
  ultimately have "(of_int (2 ^ nat (bitlen ?m - 1)) :: rat) < 1 / ?y" by (rule le_less_trans)
  then have "2 ^ nat (bitlen ?m - 1) < 1 / ?y" by simp
  then have "?y * 2 ^ nat (bitlen ?m - 1) < 1" using y(1) by (simp add: field_simps)
  then have "?y < 1 / 2 ^ nat (bitlen ?m - 1)" by (simp add: field_simps)
  moreover have "(2::rat) powi (- bitlen ?m + 1) = 1 / 2 ^ nat (bitlen ?m - 1)"
  proof -
    have "- bitlen ?m + 1 = - (bitlen ?m - 1)" by simp
    then have "(2::rat) powi (- bitlen ?m + 1) = 2 powi (- (bitlen ?m - 1))" by simp
    also have "\<dots> = 1 / 2 powi (bitlen ?m - 1)" by (rule power_int_minus_divide)
    also have "2 powi (bitlen ?m - 1) = (2::rat) ^ nat (bitlen ?m - 1)"
      using k by (simp add: power_int_def)
    finally show ?thesis .
  qed
  ultimately show ?thesis using False by (simp add: binade_def Let_def)
qed

lemma fl_err: "\<bar>fl x - x\<bar> \<le> \<bar>x\<bar> / 2 ^ 53"
proof (cases "x = 0")
  case True
  then show ?thesis by (simp add: fl_def)
next
  case False
  define u :: rat where "u = 2 powi (binade x - 52)"
  have u: "0 < u" by (simp add: u_def)
  have u2: "u * 2 ^ 52 = 2 powi (binade x)"
    by (simp add: u_def power_int_diff)
  have "fl x - x = (of_int (round_ties_even (x / u)) - x / u) * u"
    using False u by (simp add: fl_def Let_def u_def[symmetric] field_simps)
  then have "\<bar>fl x - x\<bar> = \<bar>of_int (round_ties_even (x / u)) - x / u\<bar> * u"
    using u by (simp add: abs_mult)
  also have "\<dots> \<le> (1 / 2) * u"
    using rte_err[of "x / u"] u by (intro mult_right_mono) auto
  also have "\<dots> = (u * 2 ^ 52) / 2 ^ 53" by simp
  also have "\<dots> \<le> \<bar>x\<bar> / 2 ^ 53"
    unfolding u2 using binade_lower[OF False] by (intro divide_right_mono) auto
  finally show ?thesis .
qed

lemma neg_tenth_err: "\<bar>neg_tenth + 1 / 10\<bar> = 1 / (5 * 2 ^ 55)"
  by (simp add: neg_tenth_def)

lemma adjustment_cents_exact:
  assumes "\<bar>d\<bar> \<le> 2 ^ 40"
  shows "adjustment_cents d = - 10 * d"
proof -
  define x1 :: rat where "x1 = of_int d * neg_tenth"
  define y1 where "y1 = fl x1"
  define x2 where "x2 = y1 * 100"
  define y2 where "y2 = fl x2"
  have D: "\<bar>of_int d :: rat\<bar> \<le> 2 ^ 40"
  proof -
    have "(of_int \<bar>d\<bar> :: rat) \<le> of_int (2 ^ 40)" using assms by (simp only: of_int_le_iff)
    then show ?thesis by simp
  qed
  have c: "\<bar>neg_tenth\<bar> \<le> 1 / 8" by (simp add: neg_tenth_def)
  have x1: "\<bar>x1\<bar> \<le> 2 ^ 37"
  proof -
    have "\<bar>x1\<bar> = \<bar>of_int d\<bar> * \<bar>neg_tenth\<bar>" by (simp add: x1_def abs_mult)
    also have "\<dots> \<le> 2 ^ 40 * (1 / 8)" using D c by (intro mult_mono) auto
    finally show ?thesis by simp
  qed
  have e0: "\<bar>x1 + of_int d / 10\<bar> \<le> 2 ^ 40 / (5 * 2 ^ 55)"
  proof -
    have "x1 + of_int d / 10 = of_int d * (neg_tenth + 1 / 10)"
      by (simp add: x1_def algebra_simps)
    then have "\<bar>x1 + of_int d / 10\<bar> = \<bar>of_int d\<bar> * (1 / (5 * 2 ^ 55))"
      by (simp only: abs_mult neg_tenth_err)
    also have "\<dots> \<le> 2 ^ 40 * (1 / (5 * 2 ^ 55))" using D by (intro mult_right_mono) auto
    finally show ?thesis by simp
  qed
  have e1: "\<bar>y1 - x1\<bar> \<le> 2 ^ 37 / 2 ^ 53"
  proof -
    have "\<bar>y1 - x1\<bar> \<le> \<bar>x1\<bar> / 2 ^ 53" unfolding y1_def by (rule fl_err)
    also have "\<dots> \<le> 2 ^ 37 / 2 ^ 53" using x1 by (intro divide_right_mono) auto
    finally show ?thesis .
  qed
  have x1': "\<bar>x1\<bar> \<le> 137438953472" using x1 by simp
  have e0': "\<bar>x1 + of_int d / 10\<bar> \<le> 1 / 1000" using e0 by (rule order_trans) simp
  have e1': "\<bar>y1 - x1\<bar> \<le> 1 / 1000" using e1 by (rule order_trans) simp
  have y1: "\<bar>y1\<bar> \<le> 137438953473" using e1' x1' by linarith
  have x2: "\<bar>x2\<bar> \<le> 2 ^ 45"
  proof -
    have "\<bar>x2\<bar> = \<bar>y1\<bar> * 100" by (simp add: x2_def abs_mult)
    also have "\<dots> \<le> 137438953473 * 100" using y1 by (intro mult_right_mono) auto
    finally show ?thesis by simp
  qed
  have e2: "\<bar>y2 - x2\<bar> \<le> 2 ^ 45 / 2 ^ 53"
  proof -
    have "\<bar>y2 - x2\<bar> \<le> \<bar>x2\<bar> / 2 ^ 53" unfolding y2_def by (rule fl_err)
    also have "\<dots> \<le> 2 ^ 45 / 2 ^ 53" using x2 by (intro divide_right_mono) auto
    finally show ?thesis .
  qed
  have e2': "\<bar>y2 - x2\<bar> \<le> 1 / 100" using e2 by (rule order_trans) simp
  have sum: "y2 + 10 * of_int d = (y2 - x2) + 100 * (y1 - x1) + 100 * (x1 + of_int d / 10)"
    by (simp add: x2_def)
  have tri: "\<bar>t\<bar> < 1 / 2"
    if "t = a + 100 * b + 100 * c" "\<bar>c\<bar> \<le> 1 / 1000" "\<bar>b\<bar> \<le> 1 / 1000" "\<bar>a\<bar> \<le> 1 / 100"
    for t a b c :: rat
    using that by linarith
  have near: "\<bar>y2 + 10 * of_int d\<bar> < 1 / 2"
    using sum e0' e1' e2' by (rule tri)
  have lo: "- w \<le> y + 1 / 2" and hi: "y + 1 / 2 < - w + 1" if "\<bar>y + w\<bar> < 1 / 2" for y w :: rat
    using that by linarith+
  have w: "(of_int (- 10 * d) :: rat) = - (10 * of_int d)" by simp
  have "of_int (- 10 * d) \<le> y2 + 1 / 2" "y2 + 1 / 2 < of_int (- 10 * d) + 1"
    unfolding w using lo[OF near] hi[OF near] by blast+
  then have "\<lfloor>y2 + 1 / 2\<rfloor> = - 10 * d" by (intro floor_unique) 
  then show ?thesis
    by (simp add: adjustment_cents_def Math_round_def y2_def x2_def y1_def x1_def)
qed

section \<open>Properties of the handlers by vehicle id\<close>

lemmas str_defs = toLowerCase_def toUpperCase_def lower_char_def upper_char_def upper_letters_def
  lower_letters_def isWhiteSpace_def js_trim_def
lemmas num_defs = parseInt_def parse_unsigned_def digit_val_def hex_val_def
lemmas query_defs = eq_col_def eq_number_def gte_number_def ilike_col_def ilike_nullable_def
  or_filter_def order_asc_def order_desc_def limit_rows_def single_def data_or_empty_def
  truthy_string_def ilike_def star_to_percent_def

lemma uuid_example: "uuid_regex_test example_id"
  by (simp add: uuid_regex_test_def example_id_def hex_val_def)

text \<open>
  C2 (amended). For a well-formed vehicle id and an available warranty relation, the
  warranty endpoint answers \<open>not_found\<close> exactly when there is no warranty row for the id,
  and answers with the rows otherwise. It does not look at the specification record: the
  answer is the same whatever \<^verbatim>\<open>vehicle_specs\<close> holds.
\<close>

theorem warranty_zero_rows_not_found:
  assumes "uuid_regex_test vehicleId" and "vehicle_warranties db = Inr rows"
  shows "handleWarranty db vehicleId =
           (if filter (\<lambda>w. vehicle_spec_id w = vehicleId) rows = []
            then notFoundResponse ''No warranty information found for this vehicle''
            else successResponse (filter (\<lambda>w. vehicle_spec_id w = vehicleId) rows))
         \<and> handleWarranty (db\<lparr>vehicle_specs := other\<rparr>) vehicleId = handleWarranty db vehicleId"
  using assms by (simp add: handleWarranty_def eq_col_def)

theorem warranty_zero_rows_not_found_witness:
  "handleWarranty example_db example_id
     = notFoundResponse ''No warranty information found for this vehicle''
   \<and> handleWarranty (example_db\<lparr>vehicle_specs := Inr []\<rparr>) example_id
     = handleWarranty example_db example_id"
  using warranty_zero_rows_not_found [of example_id example_db "[]" "Inr []"] uuid_example
  by (simp add: example_db_def)

text \<open>
  The claim as stated fails: the specification record of the id exists, the id has no
  warranty row, and the answer is \<open>not_found\<close>, not an empty collection.
\<close>

theorem warranty_empty_counterexample:
  "single (eq_col spec_id example_id (vehicle_specs example_db)) = Some example_spec
   \<and> eq_col vehicle_spec_id example_id (vehicle_warranties example_db) = Inr []
   \<and> handleWarranty example_db example_id
        = notFoundResponse ''No warranty information found for this vehicle''
   \<and> response_code (handleWarranty example_db example_id) = Some ''not_found''"
  by (simp add: handleWarranty_def uuid_example eq_col_def single_def example_db_def example_spec_def)

lemma order_asc_Inr:
  assumes "order_asc col q = Inr out"
  obtains rows where "q = Inr rows" and "out = sort_key col rows"
  using assms by (auto simp: order_asc_def split: sum.splits)

lemma ilike_nullable_Inr:
  assumes "ilike_nullable col pattern q = Inr out"
  obtains rows where "q = Inr rows"
    and "out = filter (\<lambda>r. case col r of None \<Rightarrow> False | Some t \<Rightarrow> ilike pattern t) rows"
  using assms by (auto simp: ilike_nullable_def split: sum.splits)

lemma gte_number_Inr:
  assumes "gte_number col v q = Inr out"
  obtains rows n where "q = Inr rows" and "v = Some n" and "out = filter (\<lambda>r. n \<le> col r) rows"
  using assms by (auto simp: gte_number_def split: sum.splits option.splits)

lemma limit_rows_Inr:
  assumes "limit_rows n q = Inr out"
  obtains rows k where "q = Inr rows" and "n = Some k" and "0 \<le> k" and "out = take (nat k) rows"
  using assms by (auto simp: limit_rows_def split: sum.splits option.splits if_splits)

lemma sorted_map_take: "sorted (map f xs) \<Longrightarrow> sorted (map f (take n xs))"
  by (metis take_map sorted_wrt_take)

text \<open>
  C8. A schedule that the maintenance endpoint returns is sorted ascending by mileage, has
  at most 50 entries, and, when \<^verbatim>\<open>current_mileage\<close> is supplied, holds only items whose
  mileage is at least the supplied value. (The endpoint does return a schedule whenever the
  specification is found, the relation is available and a supplied mileage parses: lemma
  \<open>maintenance_succeeds\<close>.)
\<close>

theorem maintenance_sorted_upcoming_capped:
  assumes "handleMaintenance db vehicleId searchParams = successResponse schedules"
  shows "sorted (map mileage schedules)
         \<and> length schedules \<le> 50
         \<and> (\<forall>m. truthy_string (searchParams ''current_mileage'') = Some m \<longrightarrow>
               (\<exists>n. parseInt m = Some n \<and> (\<forall>r \<in> set schedules. n \<le> mileage r)))"
proof -
  from assms obtain sp where sp: "single (eq_col spec_id vehicleId (vehicle_specs db)) = Some sp"
    by (auto simp: handleMaintenance_def Let_def split: option.splits)
  define q1 where "q1 = order_asc mileage
     (ilike_col ms_model (spec_model sp)
        (ilike_col ms_make (spec_make sp)
           (eq_col ms_year (spec_year sp) (vehicle_maintenance_schedules db))))"
  define q2 where "q2 = (case truthy_string (spec_trim sp) of
                           None \<Rightarrow> q1 | Some t \<Rightarrow> ilike_nullable ms_trim (t @ ''%'') q1)"
  define q3 where "q3 = (case truthy_string (searchParams ''current_mileage'') of
                           None \<Rightarrow> q2 | Some m \<Rightarrow> gte_number mileage (parseInt m) q2)"
  from assms sp have lim: "limit_rows (Some 50) q3 = Inr schedules"
    unfolding q3_def q2_def q1_def
    by (auto simp: handleMaintenance_def Let_def split: sum.splits)
  then obtain rows3 where r3: "q3 = Inr rows3" and out: "schedules = take 50 rows3"
    by (auto elim!: limit_rows_Inr)
  have s1: "sorted (map mileage rows)" if "q1 = Inr rows" for rows
    using that unfolding q1_def by (auto elim!: order_asc_Inr)
  have s2: "sorted (map mileage rows)" if "q2 = Inr rows" for rows
  proof (cases "truthy_string (spec_trim sp)")
    case None
    with that s1 show ?thesis by (simp add: q2_def)
  next
    case (Some t)
    with that obtain rows1 where "q1 = Inr rows1"
      and "rows = filter (\<lambda>r. case ms_trim r of None \<Rightarrow> False | Some u \<Rightarrow> ilike (t @ ''%'') u) rows1"
      by (auto simp: q2_def elim!: ilike_nullable_Inr)
    with s1 show ?thesis by (simp add: sorted_filter)
  qed
  have s3: "sorted (map mileage rows3)"
  proof (cases "truthy_string (searchParams ''current_mileage'')")
    case None
    with r3 s2 show ?thesis by (simp add: q3_def)
  next
    case (Some m)
    with r3 obtain rows2 n where "q2 = Inr rows2" and "rows3 = filter (\<lambda>r. n \<le> mileage r) rows2"
      by (auto simp: q3_def elim!: gte_number_Inr)
    with s2 show ?thesis by (simp add: sorted_filter)
  qed
  have up: "\<exists>n. parseInt m = Some n \<and> (\<forall>r \<in> set rows3. n \<le> mileage r)"
    if "truthy_string (searchParams ''current_mileage'') = Some m" for m
  proof -
    from that r3 obtain rows2 n where "parseInt m = Some n"
      and "rows3 = filter (\<lambda>r. n \<le> mileage r) rows2"
      by (auto simp: q3_def elim!: gte_number_Inr)
    then show ?thesis by auto
  qed
  have "sorted (map mileage schedules)" using s3 out by (simp add: sorted_map_take)
  moreover have "length schedules \<le> 50" using out by simp
  moreover have "\<forall>m. truthy_string (searchParams ''current_mileage'') = Some m \<longrightarrow>
               (\<exists>n. parseInt m = Some n \<and> (\<forall>r \<in> set schedules. n \<le> mileage r))"
    using up out by (meson in_set_takeD)
  ultimately show ?thesis by blast
qed

lemmas example_defs = example_db_def example_spec_def example_id_def maint_def

lemma example_spec_found:
  "single (eq_col spec_id example_id (vehicle_specs example_db)) = Some example_spec"
  by (simp add: single_def eq_col_def example_db_def example_spec_def)

lemma maintenance_example:
  "handleMaintenance example_db example_id [''current_mileage'' \<mapsto> ''50000'']
     = successResponse [maint ''EX-L Sedan'' 60000, maint ''EX-L Sedan'' 90000]"
  by (simp add: handleMaintenance_def Let_def example_spec_found)
     (simp add: example_defs query_defs str_defs num_defs)

theorem maintenance_sorted_upcoming_capped_witness:
  "handleMaintenance example_db example_id [''current_mileage'' \<mapsto> ''50000'']
     = successResponse [maint ''EX-L Sedan'' 60000, maint ''EX-L Sedan'' 90000]
   \<and> sorted (map mileage [maint ''EX-L Sedan'' 60000, maint ''EX-L Sedan'' 90000])
   \<and> (\<exists>n. parseInt ''50000'' = Some n
          \<and> (\<forall>r \<in> set [maint ''EX-L Sedan'' 60000, maint ''EX-L Sedan'' 90000]. n \<le> mileage r))"
  using maintenance_example maintenance_sorted_upcoming_capped [OF maintenance_example]
  by (simp add: truthy_string_def)

lemma maintenance_succeeds:
  assumes "single (eq_col spec_id vehicleId (vehicle_specs db)) = Some sp"
    and "vehicle_maintenance_schedules db = Inr rows"
    and "\<And>m. truthy_string (searchParams ''current_mileage'') = Some m \<Longrightarrow> parseInt m \<noteq> None"
  shows "\<exists>schedules. handleMaintenance db vehicleId searchParams = successResponse schedules"
  using assms
  by (auto simp: handleMaintenance_def Let_def eq_col_def ilike_col_def order_asc_def
      ilike_nullable_def gte_number_def limit_rows_def split: option.splits)

text \<open>
  With a supplied mileage that parses, the schedule is the first 50 of the qualifying rows
  in ascending mileage, however many qualify.
\<close>

lemma maintenance_schedule:
  assumes "single (eq_col spec_id vehicleId (vehicle_specs db)) = Some sp"
    and "vehicle_maintenance_schedules db = Inr rows"
    and "truthy_string (searchParams ''current_mileage'') = Some m"
    and "parseInt m = Some n"
  shows "handleMaintenance db vehicleId searchParams
           = successResponse
               (take 50 (sort_key mileage
                  (filter (\<lambda>r. ms_year r = spec_year sp
                               \<and> ilike (spec_make sp) (ms_make r)
                               \<and> ilike (spec_model sp) (ms_model r)
                               \<and> (case truthy_string (spec_trim sp) of
                                     None \<Rightarrow> True
                                   | Some t \<Rightarrow> (case ms_trim r of None \<Rightarrow> False
                                                | Some u \<Rightarrow> ilike (t @ ''%'') u))
                               \<and> n \<le> mileage r) rows)))"
  using assms
  by (auto simp: handleMaintenance_def Let_def eq_col_def ilike_col_def order_asc_def
      ilike_nullable_def gte_number_def limit_rows_def filter_sort conj_ac
      split: option.splits intro!: arg_cong[where f = "take 50"] arg_cong[where f = "sort_key mileage"] filter_cong)

section \<open>Properties of the market value endpoint\<close>

lemma adjust_field_simps:
  "adjust_field a None = None"
  "adjust_field a (Some (Num 0)) = Some (Num 0)"
  "adjust_field a (Some NaN) = Some NaN"
  "n \<noteq> 0 \<Longrightarrow> adjust_field a (Some (Num n)) = Some (js_add (Num n) a)"
  by (simp_all add: adjust_field_def)

lemma adjustForMileage_nth:
  assumes "i < length result"
  shows "fst (adjustForMileage a result ! i) = fst (result ! i)"
    and "condition (snd (adjustForMileage a result ! i)) = condition (snd (result ! i))"
    and "trade_in_cents (snd (adjustForMileage a result ! i))
           = adjust_field a (trade_in_cents (snd (result ! i)))"
    and "private_party_cents (snd (adjustForMileage a result ! i))
           = adjust_field a (private_party_cents (snd (result ! i)))"
    and "dealer_retail_cents (snd (adjustForMileage a result ! i))
           = adjust_field a (dealer_retail_cents (snd (result ! i)))"
  using assms by (simp_all add: adjustForMileage_def split_beta)

lemma adjustForMileage_length: "length (adjustForMileage a result) = length result"
  by (simp add: adjustForMileage_def)

lemma market_value_with_mileage:
  assumes "single (eq_col spec_id vehicleId (vehicle_specs db)) = Some sp"
    and "spec_year sp \<noteq> 0"
    and "truthy_string (searchParams ''mileage'') = Some m"
    and "handleMarketValue currentYear db vehicleId (searchParams(''mileage'' := None))
           = successResponse base"
  shows "handleMarketValue currentYear db vehicleId searchParams
           = successResponse (adjustForMileage (mileage_adjustment currentYear (spec_year sp) m) base)"
  using assms
  by (auto simp: handleMarketValue_def Let_def truthy_string_def split: sum.splits option.splits if_splits)

lemma mileage_adjustment_exact:
  assumes "parseInt m = Some mileageInt"
    and "\<bar>mileageInt - (currentYear - y) * 12000\<bar> \<le> 2 ^ 40"
  shows "mileage_adjustment currentYear y m = Num (- 10 * (mileageInt - (currentYear - y) * 12000))"
  using assms by (simp add: mileage_adjustment_def Let_def adjustment_cents_exact)

lemma adjustForMileage_field:
  assumes "i < length result" and "field \<in> set value_fields"
  shows "field (snd (adjustForMileage a result ! i)) = adjust_field a (field (snd (result ! i)))"
  using assms adjustForMileage_nth[of i result a] by (auto simp: value_fields_def)

text \<open>
  C1 (amended). When a mileage is supplied, the answer is the answer without mileage in
  which every value field that is present and not zero, in every condition, has been
  increased by the same adjustment
  \<^verbatim>\<open>round((actual_mileage - expected_mileage) * -0.10 * 100)\<close> cents, that is minus ten
  cents per mile of difference, where
  \<^verbatim>\<open>expected_mileage = (current_year - vehicle_year) * 12000\<close>. The bound on the
  difference keeps the double arithmetic exact.
\<close>

theorem mileage_adjustment_ten_cents_per_mile:
  assumes "single (eq_col spec_id vehicleId (vehicle_specs db)) = Some sp"
    and "spec_year sp \<noteq> 0"
    and "truthy_string (searchParams ''mileage'') = Some m"
    and "parseInt m = Some actual_mileage"
    and "expected_mileage = (currentYear - spec_year sp) * 12000"
    and "\<bar>actual_mileage - expected_mileage\<bar> \<le> 2 ^ 40"
    and "handleMarketValue currentYear db vehicleId (searchParams(''mileage'' := None))
           = successResponse base"
  shows "\<exists>adjusted adjustment.
           handleMarketValue currentYear db vehicleId searchParams = successResponse adjusted
         \<and> adjustment = round (rat_of_int (actual_mileage - expected_mileage) * (- (1 / 10)) * 100)
         \<and> adjustment = - 10 * (actual_mileage - expected_mileage)
         \<and> map fst adjusted = map fst base
         \<and> (\<forall>i < length base. \<forall>field \<in> set value_fields. \<forall>n.
               field (snd (base ! i)) = Some (Num n) \<and> n \<noteq> 0 \<longrightarrow>
               field (snd (adjusted ! i)) = Some (Num (n + adjustment)))"
proof -
  let ?d = "actual_mileage - expected_mileage"
  let ?a = "mileage_adjustment currentYear (spec_year sp) m"
  have a: "?a = Num (- 10 * ?d)"
    using assms(4,5,6) mileage_adjustment_exact[of m actual_mileage currentYear "spec_year sp"]
    by simp
  have out: "handleMarketValue currentYear db vehicleId searchParams
               = successResponse (adjustForMileage ?a base)"
    using assms(1,2,3,7) by (rule market_value_with_mileage)
  have r: "round (rat_of_int ?d * (- (1 / 10)) * 100) = - 10 * ?d"
  proof -
    have "rat_of_int ?d * (- (1 / 10)) * 100 = of_int (- 10 * ?d)" by (simp add: field_simps)
    then show ?thesis by (simp only: round_of_int)
  qed
  have keys: "map fst (adjustForMileage ?a base) = map fst base"
    by (simp add: adjustForMileage_def split_beta)
  have fields: "field (snd (adjustForMileage ?a base ! i)) = Some (Num (n + (- 10 * ?d)))"
    if "i < length base" "field \<in> set value_fields" "field (snd (base ! i)) = Some (Num n)" "n \<noteq> 0"
    for i field n
    using that a by (simp add: adjustForMileage_field adjust_field_simps)
  show ?thesis
    using out r keys fields by (intro exI[of _ "adjustForMileage ?a base"] exI[of _ "- 10 * ?d"]) simp
qed

lemma market_value_example_base:
  "handleMarketValue 2024 example_db example_id ([''mileage'' \<mapsto> ''49000''](''mileage'' := None))
     = successResponse
         [(''Clean'', \<lparr> condition = ''Clean'', trade_in_cents = Some (Num 1500000),
             private_party_cents = Some (Num 0), dealer_retail_cents = None \<rparr>)]"
  by (simp add: handleMarketValue_def Let_def example_spec_found)
     (simp add: example_defs query_defs str_defs formatMarketValues_def)

lemma parse_49000: "parseInt ''49000'' = Some 49000"
  by (simp add: num_defs isWhiteSpace_def)

theorem mileage_adjustment_ten_cents_per_mile_witness:
  "\<exists>adjusted.
      handleMarketValue 2024 example_db example_id [''mileage'' \<mapsto> ''49000''] = successResponse adjusted
    \<and> map fst adjusted = [''Clean'']
    \<and> trade_in_cents (snd (adjusted ! 0)) = Some (Num (1500000 + - 10 * (49000 - 48000)))"
proof -
  have y: "spec_year example_spec \<noteq> 0" by (simp add: example_spec_def)
  have m: "truthy_string ([''mileage'' \<mapsto> ''49000''] ''mileage'') = Some ''49000''"
    by (simp add: truthy_string_def)
  have e: "(48000::int) = (2024 - spec_year example_spec) * 12000" by (simp add: example_spec_def)
  have b: "\<bar>49000 - (48000::int)\<bar> \<le> 2 ^ 40" by simp
  have f: "trade_in_cents \<in> set value_fields" by (simp add: value_fields_def)
  from mileage_adjustment_ten_cents_per_mile
         [OF example_spec_found y m parse_49000 e b market_value_example_base]
  obtain adjusted adjustment where
    "handleMarketValue 2024 example_db example_id [''mileage'' \<mapsto> ''49000''] = successResponse adjusted"
    "adjustment = - 10 * (49000 - 48000)"
    "map fst adjusted = [''Clean'']"
    "\<forall>i < 1. \<forall>field \<in> set value_fields. \<forall>n.
        field (snd ([(''Clean'', \<lparr> condition = ''Clean'', trade_in_cents = Some (Num 1500000),
             private_party_cents = Some (Num 0), dealer_retail_cents = None \<rparr>)] ! i)) = Some (Num n) \<and> n \<noteq> 0 \<longrightarrow>
        field (snd (adjusted ! i)) = Some (Num (n + adjustment))"
    by auto
  then show ?thesis using f by (intro exI[of _ adjusted]) auto
qed

text \<open>
  The claim as stated fails: 1000 miles above the expected mileage lower a value of
  1500000 cents by 10000 cents, where the formula of the specification gives 100 cents.
\<close>

theorem mileage_adjustment_spec_formula_counterexample:
  "handleMarketValue 2024 example_db example_id Map.empty
     = successResponse
         [(''Clean'', \<lparr> condition = ''Clean'', trade_in_cents = Some (Num 1500000),
             private_party_cents = Some (Num 0), dealer_retail_cents = None \<rparr>)]
   \<and> handleMarketValue 2024 example_db example_id [''mileage'' \<mapsto> ''49000'']
     = successResponse
         [(''Clean'', \<lparr> condition = ''Clean'', trade_in_cents = Some (Num 1490000),
             private_party_cents = Some (Num 0), dealer_retail_cents = None \<rparr>)]
   \<and> spec_adjustment_cents 49000 ((2024 - 2020) * 12000) = - 100
   \<and> 1500000 + spec_adjustment_cents 49000 ((2024 - 2020) * 12000) \<noteq> 1490000"
proof -
  have a: "mileage_adjustment 2024 2020 ''49000'' = Num (- 10000)"
    using mileage_adjustment_exact[OF parse_49000, of 2024 2020] by simp
  have s: "spec_adjustment_cents 49000 ((2024 - 2020) * 12000) = - 100"
  proof -
    have "rat_of_int (49000 - (2024 - 2020) * 12000) * (- (1 / 10)) = of_int (- 100)" by simp
    then show ?thesis unfolding spec_adjustment_cents_def by (simp only: round_of_int)
  qed
  have b: "handleMarketValue 2024 example_db example_id Map.empty
     = successResponse
         [(''Clean'', \<lparr> condition = ''Clean'', trade_in_cents = Some (Num 1500000),
             private_party_cents = Some (Num 0), dealer_retail_cents = None \<rparr>)]"
    using market_value_example_base by simp
  have c: "handleMarketValue 2024 example_db example_id [''mileage'' \<mapsto> ''49000'']
     = successResponse
         [(''Clean'', \<lparr> condition = ''Clean'', trade_in_cents = Some (Num 1490000),
             private_party_cents = Some (Num 0), dealer_retail_cents = None \<rparr>)]"
    using market_value_with_mileage[OF example_spec_found _ _ market_value_example_base] a
    by (simp add: truthy_string_def example_spec_def adjustForMileage_def adjust_field_def)
  show ?thesis using b c s by simp
qed

text \<open>
  C10. In the mileage adjustment a value field that is null or exactly 0 is returned
  unchanged, and the fields of the same condition that hold a number other than zero
  receive the adjustment in full.
\<close>

theorem falsy_value_field_not_adjusted:
  assumes "single (eq_col spec_id vehicleId (vehicle_specs db)) = Some sp"
    and "spec_year sp \<noteq> 0"
    and "truthy_string (searchParams ''mileage'') = Some m"
    and "handleMarketValue currentYear db vehicleId (searchParams(''mileage'' := None))
           = successResponse base"
  shows "\<exists>adjusted.
           handleMarketValue currentYear db vehicleId searchParams = successResponse adjusted
         \<and> length adjusted = length base
         \<and> (\<forall>i < length base. \<forall>field \<in> set value_fields.
               (field (snd (base ! i)) = None \<or> field (snd (base ! i)) = Some (Num 0) \<longrightarrow>
                  field (snd (adjusted ! i)) = field (snd (base ! i)))
             \<and> (\<forall>n. field (snd (base ! i)) = Some (Num n) \<and> n \<noteq> 0 \<longrightarrow>
                  field (snd (adjusted ! i))
                    = Some (js_add (Num n) (mileage_adjustment currentYear (spec_year sp) m))))"
proof -
  let ?a = "mileage_adjustment currentYear (spec_year sp) m"
  have out: "handleMarketValue currentYear db vehicleId searchParams
               = successResponse (adjustForMileage ?a base)"
    using assms by (rule market_value_with_mileage)
  have "field (snd (adjustForMileage ?a base ! i)) = field (snd (base ! i))"
    if "i < length base" "field \<in> set value_fields"
      "field (snd (base ! i)) = None \<or> field (snd (base ! i)) = Some (Num 0)" for i field
    using that by (auto simp: adjustForMileage_field adjust_field_simps)
  moreover have "field (snd (adjustForMileage ?a base ! i)) = Some (js_add (Num n) ?a)"
    if "i < length base" "field \<in> set value_fields" "field (snd (base ! i)) = Some (Num n)" "n \<noteq> 0"
    for i field n
    using that by (simp add: adjustForMileage_field adjust_field_simps)
  ultimately show ?thesis
    using out by (intro exI[of _ "adjustForMileage ?a base"]) (simp add: adjustForMileage_length)
qed

theorem falsy_value_field_not_adjusted_witness:
  "\<exists>adjusted.
      handleMarketValue 2024 example_db example_id [''mileage'' \<mapsto> ''49000''] = successResponse adjusted
    \<and> private_party_cents (snd (adjusted ! 0)) = Some (Num 0)
    \<and> dealer_retail_cents (snd (adjusted ! 0)) = None
    \<and> trade_in_cents (snd (adjusted ! 0))
         = Some (js_add (Num 1500000) (mileage_adjustment 2024 2020 ''49000''))"
proof -
  have y: "spec_year example_spec \<noteq> 0" by (simp add: example_spec_def)
  have m: "truthy_string ([''mileage'' \<mapsto> ''49000''] ''mileage'') = Some ''49000''"
    by (simp add: truthy_string_def)
  have f: "trade_in_cents \<in> set value_fields" "private_party_cents \<in> set value_fields"
    "dealer_retail_cents \<in> set value_fields" by (simp_all add: value_fields_def)
  from falsy_value_field_not_adjusted [OF example_spec_found y m market_value_example_base]
  obtain adjusted where a:
    "handleMarketValue 2024 example_db example_id [''mileage'' \<mapsto> ''49000''] = successResponse adjusted"
    and r: "\<forall>i < 1. \<forall>field \<in> set value_fields.
        (field (snd ([(''Clean'', \<lparr> condition = ''Clean'', trade_in_cents = Some (Num 1500000),
             private_party_cents = Some (Num 0), dealer_retail_cents = None \<rparr>)] ! i)) = None
         \<or> field (snd ([(''Clean'', \<lparr> condition = ''Clean'', trade_in_cents = Some (Num 1500000),
             private_party_cents = Some (Num 0), dealer_retail_cents = None \<rparr>)] ! i)) = Some (Num 0) \<longrightarrow>
           field (snd (adjusted ! i)) = field (snd ([(''Clean'', \<lparr> condition = ''Clean'', trade_in_cents = Some (Num 1500000),
             private_party_cents = Some (Num 0), dealer_retail_cents = None \<rparr>)] ! i)))
      \<and> (\<forall>n. field (snd ([(''Clean'', \<lparr> condition = ''Clean'', trade_in_cents = Some (Num 1500000),
             private_party_cents = Some (Num 0), dealer_retail_cents = None \<rparr>)] ! i)) = Some (Num n) \<and> n \<noteq> 0 \<longrightarrow>
           field (snd (adjusted ! i))
             = Some (js_add (Num n) (mileage_adjustment 2024 (spec_year example_spec) ''49000'')))"
    by auto
  have "private_party_cents (snd (adjusted ! 0)) = Some (Num 0)"
    "dealer_retail_cents (snd (adjusted ! 0)) = None"
    "trade_in_cents (snd (adjusted ! 0))
         = Some (js_add (Num 1500000) (mileage_adjustment 2024 2020 ''49000''))"
    using r f by (auto simp: example_spec_def)
  with a show ?thesis by blast
qed

section \<open>Properties of the VIN lookup\<close>

lemma split_on_first: "split_on d s = takeWhile (\<lambda>c. c \<noteq> d) s # (case dropWhile (\<lambda>c. c \<noteq> d) s of [] \<Rightarrow> [] | _ # r \<Rightarrow> split_on d r)"
  by (induction s) (auto split: list.splits)

lemma primaryTrim_of_eq: "primaryTrim_of t = js_trim (takeWhile (\<lambda>c. c \<noteq> CHR ''/'') t)"
  by (subst primaryTrim_of_def, subst split_on_first) simp

lemma like_percent [simp]: "like ''%'' s"
  by (induction s) auto

lemma like_prefix:
  assumes "\<forall>c \<in> set q. c \<noteq> CHR ''%'' \<and> c \<noteq> CHR ''_'' \<and> c \<noteq> CHR 0x5C"
  shows "like (q @ ''%'') s \<longleftrightarrow> take (length q) s = q"
  using assms
proof (induction q arbitrary: s)
  case Nil
  then show ?case by (simp del: like.simps)
next
  case (Cons a q)
  then show ?case by (cases s) auto
qed

lemma lower_char_special:
  assumes "c \<notin> set [CHR ''%'', CHR ''_'', CHR ''*'', CHR 0x5C]"
  shows "lower_char c \<notin> set [CHR ''%'', CHR ''_'', CHR ''*'', CHR 0x5C]"
  using assms by (simp add: lower_char_def upper_letters_def lower_letters_def)

lemma ilike_prefix:
  assumes "wildcard_free p"
  shows "ilike (p @ ''%'') s \<longleftrightarrow> take (length p) (toLowerCase s) = toLowerCase p"
proof -
  have free: "\<forall>c \<in> set (toLowerCase p). c \<notin> set [CHR ''%'', CHR ''_'', CHR ''*'', CHR 0x5C]"
    using assms lower_char_special by (auto simp: wildcard_free_def toLowerCase_def list_all_iff)
  then have "map star_to_percent (toLowerCase p) = toLowerCase p"
    by (intro map_idI) (auto simp: star_to_percent_def)
  moreover have "toLowerCase (p @ ''%'') = toLowerCase p @ ''%''"
    by (simp add: toLowerCase_def lower_char_def upper_letters_def lower_letters_def)
  ultimately have "ilike (p @ ''%'') s \<longleftrightarrow> like (toLowerCase p @ ''%'') (toLowerCase s)"
    by (simp add: ilike_def star_to_percent_def)
  also have "\<dots> \<longleftrightarrow> take (length (toLowerCase p)) (toLowerCase s) = toLowerCase p"
    using free by (intro like_prefix) auto
  finally show ?thesis by (simp add: toLowerCase_def)
qed

lemma single_limit_find:
  "single (limit_rows (Some 1) (Inr (filter P rows))) = find P rows"
  by (induction rows) (auto simp: single_def limit_rows_def split: list.splits)

lemma specsWithTrim_find:
  assumes "vehicle_specs db = Inr rows"
  shows "specsWithTrim db mk mp y p
           = find (\<lambda>r. ilike mk (spec_make r) \<and> ilike mp (spec_model r) \<and> spec_year r = y
                       \<and> (case spec_trim r of None \<Rightarrow> False | Some tr \<Rightarrow> ilike (p @ ''%'') tr)) rows"
  using assms single_limit_find[of "\<lambda>r. ilike mk (spec_make r) \<and> ilike mp (spec_model r) \<and> spec_year r = y
                       \<and> (case spec_trim r of None \<Rightarrow> False | Some tr \<Rightarrow> ilike (p @ ''%'') tr)" rows]
  by (simp add: specsWithTrim_def Let_def ilike_col_def eq_col_def ilike_nullable_def conj_ac)

lemma specsWithoutTrim_find:
  assumes "vehicle_specs db = Inr rows"
  shows "specsWithoutTrim db mk mp y
           = find (\<lambda>r. ilike mk (spec_make r) \<and> ilike mp (spec_model r) \<and> spec_year r = y) rows"
  using assms single_limit_find[of "\<lambda>r. ilike mk (spec_make r) \<and> ilike mp (spec_model r) \<and> spec_year r = y" rows]
  by (simp add: specsWithoutTrim_def Let_def ilike_col_def eq_col_def conj_ac)

lemma resolve_specs_fallback:
  assumes "truthy_string decoded_trim = Some t"
  shows "resolve_specs db mk mp y decoded_trim
           = (case specsWithTrim db mk mp y (primaryTrim_of t) of
                None \<Rightarrow> specsWithoutTrim db mk mp y
              | Some r \<Rightarrow> Some r)"
  using assms by (simp add: resolve_specs_def)

lemma vin_lookup_specs:
  assumes "length v = 17" and "vin_regex_test (toUpperCase v)"
    and "fst (decodeVinWithNHTSA fetch (toUpperCase v)) = Inr d"
    and "year d = Some y" and "y \<noteq> 0" and "make' d = Some mk" and "model d = Some md"
  shows "\<exists>out. handleVinLookup fetch db v = successResponse out
          \<and> specs out = resolve_specs db mk (modelPattern_of md) y (trim d)"
proof -
  from assms(3) obtain results where "make' d = getValue results ''Make''"
    and "model d = getValue results ''Model''"
    by (auto simp: decodeVinWithNHTSA_def split: fetch_outcome.splits if_splits option.splits)
  with assms(6,7) have ne: "mk \<noteq> []" "md \<noteq> []"
    by (auto dest: getValue_nonempty)
  from assms(1) have "v \<noteq> []" by auto
  with assms ne show ?thesis
    by (simp add: handleVinLookup_def Let_def)
qed

text \<open>
  C3 (amended). For a decoded vehicle with a non-null trim, the primary trim is the first
  slash-separated segment with the white space around it removed (for
  \<^verbatim>\<open>EX-L/EX-L Navi\<close> it is \<^verbatim>\<open>EX-L\<close>). The trim-specific strategy returns the first
  row of the year, make and model whose trim matches the case-insensitive pattern made of
  the primary trim followed by \<^verbatim>\<open>%\<close>, which is a case-insensitive prefix match when the
  primary trim holds no wildcard character, and not an equality. When that yields no row
  the resolution is the result of the same query without the trim, and the lookup answers
  with a success whether or not a row was found.
\<close>

theorem vin_lookup_trim_resolution:
  "primaryTrim_of t = js_trim (takeWhile (\<lambda>c. c \<noteq> CHR ''/'') t)
   \<and> primaryTrim_of ''EX-L/EX-L Navi'' = ''EX-L''
   \<and> (wildcard_free p \<longrightarrow>
         ilike (p @ ''%'') s = (take (length p) (toLowerCase s) = toLowerCase p))
   \<and> (vehicle_specs db = Inr rows \<longrightarrow>
         specsWithTrim db mk mp y p
           = find (\<lambda>r. ilike mk (spec_make r) \<and> ilike mp (spec_model r) \<and> spec_year r = y
                       \<and> (case spec_trim r of None \<Rightarrow> False | Some tr \<Rightarrow> ilike (p @ ''%'') tr)) rows
       \<and> specsWithoutTrim db mk mp y
           = find (\<lambda>r. ilike mk (spec_make r) \<and> ilike mp (spec_model r) \<and> spec_year r = y) rows)
   \<and> (truthy_string decoded_trim = Some t \<longrightarrow>
         resolve_specs db mk mp y decoded_trim
           = (case specsWithTrim db mk mp y (primaryTrim_of t) of
                None \<Rightarrow> specsWithoutTrim db mk mp y
              | Some r \<Rightarrow> Some r))
   \<and> (length v = 17 \<and> vin_regex_test (toUpperCase v)
        \<and> fst (decodeVinWithNHTSA fetch (toUpperCase v)) = Inr d
        \<and> year d = Some y \<and> y \<noteq> 0 \<and> make' d = Some mk \<and> model d = Some md \<longrightarrow>
         (\<exists>out. handleVinLookup fetch db v = successResponse out
               \<and> specs out = resolve_specs db mk (modelPattern_of md) y (trim d)))"
proof -
  have "primaryTrim_of ''EX-L/EX-L Navi'' = ''EX-L''"
    by (simp add: primaryTrim_of_def js_trim_def isWhiteSpace_def)
  then show ?thesis
    using primaryTrim_of_eq[of t] ilike_prefix[of p s] specsWithTrim_find[of db rows mk mp y p]
      specsWithoutTrim_find[of db rows mk mp y] resolve_specs_fallback[of decoded_trim t db mk mp y]
      vin_lookup_specs[of v fetch d y mk md db]
    by blast
qed

lemma trim_db_specs:
  "vehicle_specs trim_db = Inr [accord ''a1'' ''LX'', accord ''a2'' ''EX'', accord ''a3'' ''EX-L Navi'']"
  by (simp add: trim_db_def)

theorem vin_lookup_trim_resolution_witness:
  "primaryTrim_of ''EX-L/EX-L Navi'' = ''EX-L''
   \<and> ilike (''EX-L'' @ ''%'') ''ex-l Navi''
   \<and> resolve_specs trim_db ''HONDA'' ''Accord'' 2020 (Some ''EX-L/EX-L Navi'') = Some (accord ''a3'' ''EX-L Navi'')
   \<and> resolve_specs trim_db ''HONDA'' ''Accord'' 2020 (Some ''Touring'') = Some (accord ''a1'' ''LX'')
   \<and> (\<exists>out. handleVinLookup fetch_accord trim_db ''1hgcv1f34la000001'' = successResponse out
          \<and> specs out = Some (accord ''a3'' ''EX-L Navi''))"
proof -
  note T = vin_lookup_trim_resolution
  have p: "primaryTrim_of ''EX-L/EX-L Navi'' = ''EX-L''" using T by blast
  have w: "wildcard_free ''EX-L''" by (simp add: wildcard_free_def)
  have i: "ilike (''EX-L'' @ ''%'') ''ex-l Navi''"
    using T[where p = "''EX-L''" and s = "''ex-l Navi''"] w by (simp add: str_defs)
  have pt: "primaryTrim_of ''Touring'' = ''Touring''"
    by (simp add: primaryTrim_of_def js_trim_def isWhiteSpace_def)
  have wt: "specsWithTrim trim_db ''HONDA'' ''Accord'' 2020 ''EX-L'' = Some (accord ''a3'' ''EX-L Navi'')"
    using T[where db = trim_db and mk = "''HONDA''" and mp = "''Accord''" and y = 2020 and p = "''EX-L''"] trim_db_specs
    by (simp add: accord_def ilike_def star_to_percent_def str_defs)
  have wt2: "specsWithTrim trim_db ''HONDA'' ''Accord'' 2020 ''Touring'' = None"
    using T[where db = trim_db and mk = "''HONDA''" and mp = "''Accord''" and y = 2020 and p = "''Touring''"] trim_db_specs
    by (simp add: accord_def ilike_def star_to_percent_def str_defs)
  have wo: "specsWithoutTrim trim_db ''HONDA'' ''Accord'' 2020 = Some (accord ''a1'' ''LX'')"
    using T[where db = trim_db and mk = "''HONDA''" and mp = "''Accord''" and y = 2020] trim_db_specs
    by (simp add: accord_def ilike_def star_to_percent_def str_defs)
  have r1: "resolve_specs trim_db ''HONDA'' ''Accord'' 2020 (Some ''EX-L/EX-L Navi'') = Some (accord ''a3'' ''EX-L Navi'')"
    using T[where t = "''EX-L/EX-L Navi''" and db = trim_db and mk = "''HONDA''" and mp = "''Accord''"
        and y = 2020 and decoded_trim = "Some ''EX-L/EX-L Navi''"] p wt
    by (simp add: truthy_string_def)
  have r2: "resolve_specs trim_db ''HONDA'' ''Accord'' 2020 (Some ''Touring'') = Some (accord ''a1'' ''LX'')"
    using T[where t = "''Touring''" and db = trim_db and mk = "''HONDA''" and mp = "''Accord''"
        and y = 2020 and decoded_trim = "Some ''Touring''"] pt wt2 wo
    by (simp add: truthy_string_def)
  have v: "vin_regex_test (toUpperCase ''1hgcv1f34la000001'')"
    by (simp add: vin_regex_test_def vin_char_def str_defs)
  obtain d where d: "fst (decodeVinWithNHTSA fetch_accord (toUpperCase ''1hgcv1f34la000001'')) = Inr d"
    "year d = Some 2020" "make' d = Some ''HONDA''" "model d = Some ''Accord''"
    "trim d = Some ''EX-L/EX-L Navi''"
    by (simp add: decodeVinWithNHTSA_def fetch_accord_def getValue_def getNumericValue_def
        parseInt_def parse_unsigned_def digit_val_def isWhiteSpace_def)
  have mp: "modelPattern_of ''Accord'' = ''Accord''" by (simp add: modelPattern_of_def)
  have "\<exists>out. handleVinLookup fetch_accord trim_db ''1hgcv1f34la000001'' = successResponse out
          \<and> specs out = Some (accord ''a3'' ''EX-L Navi'')"
    using T[where db = trim_db and mk = "''HONDA''" and y = 2020 and v = "''1hgcv1f34la000001''"
        and fetch = fetch_accord and d = d and md = "''Accord''"]
      v d r1 mp by simp
  with p i r1 r2 show ?thesis by blast
qed

text \<open>
  The claim as stated fails twice. The primary trim of \<^verbatim>\<open>EX-L /EX-L Navi\<close> is
  \<^verbatim>\<open>EX-L\<close>, which is not the first segment (that one ends in a space); and the trim
  \<^verbatim>\<open>E_\<close> resolves to the row of trim \<^verbatim>\<open>EX\<close>, of which it is not a prefix.
\<close>

theorem trim_first_segment_prefix_counterexample:
  "primaryTrim_of ''EX-L /EX-L Navi'' = ''EX-L''
   \<and> first_segment ''EX-L /EX-L Navi'' = ''EX-L ''
   \<and> resolve_specs trim_db ''HONDA'' ''Accord'' 2020 (Some ''E_'') = Some (accord ''a2'' ''EX'')
   \<and> take (length ''E_'') (toLowerCase ''EX'') \<noteq> toLowerCase ''E_''"
  by (simp add: primaryTrim_of_def first_segment_def resolve_specs_def truthy_string_def
      specsWithTrim_def specsWithoutTrim_def Let_def trim_db_def accord_def
      ilike_col_def eq_col_def ilike_nullable_def limit_rows_def single_def
      ilike_def star_to_percent_def str_defs)

section \<open>Properties of search and of the cached lists\<close>

text \<open>
  C6 (amended). A search whose query has fewer than 2 characters, counted before any
  trimming, is rejected with \<open>invalid_params\<close> before any access to the cache or to the
  store; a query of 2 characters or more is not rejected and reaches the cache.
\<close>

theorem search_short_query_rejected:
  "(length (search_query searchParams) < 2 \<longrightarrow>
      handleVehicleSearch redis_get db searchParams
        = (errorResponse ''invalid_params'' ''Search query must be at least 2 characters'', []))
   \<and> (2 \<le> length (search_query searchParams) \<longrightarrow>
      (\<exists>key rest. snd (handleVehicleSearch redis_get db searchParams) = CacheGet key # rest)
      \<and> response_code (fst (handleVehicleSearch redis_get db searchParams)) \<noteq> Some ''invalid_params'')"
proof (cases "length (search_query searchParams) < 2")
  case True
  then show ?thesis by (auto simp: handleVehicleSearch_def Let_def)
next
  case False
  then have "search_query searchParams \<noteq> []" by auto
  with False show ?thesis
    by (auto simp: handleVehicleSearch_def Let_def
        split: cache_outcome.splits prod.splits sum.splits)
qed

lemma show_20: "show_number (Some 20) = ''20''"
  by (simp add: show_number_def show_int_def digit_char_def)

theorem search_short_query_rejected_witness:
  "handleVehicleSearch cache_miss example_db [''q'' \<mapsto> ''a'']
     = (errorResponse ''invalid_params'' ''Search query must be at least 2 characters'', [])
   \<and> (\<exists>key rest. snd (handleVehicleSearch cache_miss example_db [''q'' \<mapsto> ''ab'']) = CacheGet key # rest)"
  using search_short_query_rejected [of "[''q'' \<mapsto> ''a'']" cache_miss example_db]
    search_short_query_rejected [of "[''q'' \<mapsto> ''ab'']" cache_miss example_db]
  by (simp add: search_query_def truthy_string_def)

text \<open>
  The claim as stated fails: the query \<^verbatim>\<open>" a "\<close> has one character after trimming, and
  is not rejected; the cache is read, the view is queried and the result is cached.
\<close>

theorem search_trimmed_length_counterexample:
  "length (js_trim (search_query [''q'' \<mapsto> '' a ''])) < 2
   \<and> handleVehicleSearch cache_miss example_db [''q'' \<mapsto> '' a '']
       = (successResponse [],
          [CacheGet ''vehicles:search:a:20'', DbQuery ''vehicle_autocomplete'',
           CacheSet ''vehicles:search:a:20''])"
proof -
  have q: "search_query [''q'' \<mapsto> '' a ''] = '' a ''"
    by (simp add: search_query_def truthy_string_def)
  have n: "toLowerCase (js_trim '' a '') = ''a''" by (simp add: str_defs)
  have l: "map_option (\<lambda>n. min n 50) (parseInt ''20'') = Some 20"
    by (simp add: parseInt_def parse_unsigned_def digit_val_def isWhiteSpace_def)
  have t: "tokenize_loop (None, []) (split_ws ''a'') = (None, [])"
    by (simp add: split_ws_def isWhiteSpace_def is_year_token_def)
  have a: "autocomplete_query example_db None [] (Some 20) = Inr []"
    by (simp add: autocomplete_query_def Let_def year_filter_step_def order_year_make_model_def
        order_asc_def order_desc_def limit_rows_def example_db_def)
  show ?thesis
    by (simp add: handleVehicleSearch_def Let_def q l show_20 cache_miss_def truthy_string_def
        str_defs t a)
qed

text \<open>
  C9. The claim asks that a generic failure of the aggregate query reach the caller as an
  error, and that only a missing relation lead to the fallback. The search handler does
  that (lemma \<open>search_fallback_iff_view_missing\<close>). The handler of the list of makes does
  not: when the view fails with the code 57014, which is not the code of a missing
  relation, it queries the raw table and answers with a success (and does so for any error,
  lemma \<open>makes_fallback_on_any_error\<close>), where the search handler answers the same failure
  with an internal error.
\<close>

theorem makes_fallback_on_generic_failure:
  "\<not> view_missing (DbError ''57014'')
   \<and> vehicle_makes db_view_timeout = Inl (DbError ''57014'')
   \<and> handleMakes cache_miss db_view_timeout [''year'' \<mapsto> ''2020'']
       = (successResponse [''Honda''],
          [CacheGet ''vehicles:makes:2020'', DbQuery ''vehicle_makes'', DbQuery ''vehicle_specs'',
           CacheSet ''vehicles:makes:2020''])
   \<and> handleVehicleSearch cache_miss db_view_timeout [''q'' \<mapsto> ''2020 honda'']
       = (internalErrorResponse,
          [CacheGet ''vehicles:search:2020 honda:20'', DbQuery ''vehicle_autocomplete''])"
proof -
  have p: "parseInt ''2020'' = Some 2020"
    by (simp add: parseInt_def parse_unsigned_def digit_val_def isWhiteSpace_def)
  have m: "handleMakes cache_miss db_view_timeout [''year'' \<mapsto> ''2020'']
       = (successResponse [''Honda''],
          [CacheGet ''vehicles:makes:2020'', DbQuery ''vehicle_makes'', DbQuery ''vehicle_specs'',
           CacheSet ''vehicles:makes:2020''])"
    by (simp add: handleMakes_def Let_def truthy_string_def cache_miss_def p db_view_timeout_def
        example_db_def example_spec_def eq_number_def order_asc_def js_set_def)
  have q: "search_query [''q'' \<mapsto> ''2020 honda''] = ''2020 honda''"
    by (simp add: search_query_def truthy_string_def)
  have n: "toLowerCase (js_trim ''2020 honda'') = ''2020 honda''" by (simp add: str_defs)
  have l: "map_option (\<lambda>n. min n 50) (parseInt ''20'') = Some 20"
    by (simp add: parseInt_def parse_unsigned_def digit_val_def isWhiteSpace_def)
  have a: "autocomplete_query db_view_timeout yf tt lim = Inl (DbError ''57014'')" for yf tt lim
  proof -
    have f: "foldl (\<lambda>q token. ilike_col col (pat token) q) (Inl e) ts = Inl e"
      for e ts col and pat :: "string \<Rightarrow> string"
      by (induction ts) (simp_all add: ilike_col_def)
    show ?thesis
      by (simp add: autocomplete_query_def Let_def year_filter_step_def order_year_make_model_def
          order_asc_def order_desc_def limit_rows_def eq_col_def db_view_timeout_def f
          split: option.splits)
  qed
  have s: "handleVehicleSearch cache_miss db_view_timeout [''q'' \<mapsto> ''2020 honda'']
       = (internalErrorResponse,
          [CacheGet ''vehicles:search:2020 honda:20'', DbQuery ''vehicle_autocomplete''])"
    by (simp add: handleVehicleSearch_def Let_def q n l a show_20 cache_miss_def truthy_string_def
        view_missing_def split: prod.splits)
  show ?thesis using m s by (simp add: view_missing_def db_view_timeout_def)
qed

lemma search_fallback_iff_view_missing:
  assumes "2 \<le> length (search_query searchParams)"
    and "\<And>key cached. redis_get key \<noteq> CacheHit cached"
    and "tokenize (search_query searchParams) = (yearFilter, textTokens)"
    and "autocomplete_query db yearFilter textTokens
           (map_option (\<lambda>n. min n 50)
              (parseInt (case truthy_string (searchParams ''limit'') of Some l \<Rightarrow> l | None \<Rightarrow> ''20'')))
         = Inl error"
  shows "DbQuery ''vehicle_specs'' \<in> set (snd (handleVehicleSearch redis_get db searchParams))
           \<longleftrightarrow> view_missing error"
    and "\<not> view_missing error \<Longrightarrow>
           fst (handleVehicleSearch redis_get db searchParams) = internalErrorResponse"
proof -
  from assms(1) have ne: "search_query searchParams \<noteq> []" "\<not> length (search_query searchParams) < 2"
    by auto
  from assms(3) have t: "tokenize_loop (None, []) (split_ws (toLowerCase (js_trim (search_query searchParams))))
     = (yearFilter, textTokens)" by (simp add: tokenize_def)
  show "DbQuery ''vehicle_specs'' \<in> set (snd (handleVehicleSearch redis_get db searchParams))
           \<longleftrightarrow> view_missing error"
    using ne assms(2,4) t
    by (auto simp: handleVehicleSearch_def Let_def split: cache_outcome.splits sum.splits)
  show "fst (handleVehicleSearch redis_get db searchParams) = internalErrorResponse"
    if "\<not> view_missing error"
    using that ne assms(2,4) t
    by (auto simp: handleVehicleSearch_def Let_def split: cache_outcome.splits sum.splits)
qed

lemma makes_fallback_on_any_error:
  assumes "\<And>key cached. redis_get key \<noteq> CacheHit cached"
    and "vehicle_makes db = Inl error"
    and "vehicle_specs db = Inr rows"
    and "\<And>y. truthy_string (searchParams ''year'') = Some y \<Longrightarrow> parseInt y \<noteq> None"
  shows "\<exists>makes. fst (handleMakes redis_get db searchParams) = successResponse makes"
    and "DbQuery ''vehicle_specs'' \<in> set (snd (handleMakes redis_get db searchParams))"
  using assms
  by (auto simp: handleMakes_def Let_def eq_number_def order_asc_def
      split: cache_outcome.splits option.splits sum.splits)

end
